theory Spec2Isabelle
  imports Main "HOL-Library.Log_Nat" "HOL-Library.Sublist"
begin

section \<open>Python values\<close>

subsection \<open>Floats: IEEE 754 binary64, finite values, round to nearest even\<close>

text \<open>
  A Python \<open>float\<close> is a binary64 number. \<open>Double m e\<close> denotes \<open>m * 2 ^ e\<close>; the results
  of the operations below are in normal form (\<open>m\<close> odd, or \<open>Double 0 0\<close> for \<open>0.0\<close>), so that
  HOL equality on results is Python's \<open>==\<close>. Every arithmetic operation computes the exact
  rational result and rounds it once, to 53 significant bits (to the subnormal grid below
  \<open>2 ^ - 1022\<close>), ties to even. Infinities, NaN and the sign of zero are left out: the
  quantities of this program are character counts below \<open>2 ^ 63\<close>, prices and clock
  readings, far from the overflow threshold \<open>2 ^ 1024\<close>.
\<close>

datatype double = Double int int

text \<open>\<open>round_half_even n d\<close>: the integer nearest to \<open>n / d\<close> (for \<open>0 \<le> n\<close>, \<open>0 < d\<close>).\<close>

definition round_half_even :: "int \<Rightarrow> int \<Rightarrow> int" where
  "round_half_even n d =
     (let q = n div d; r = n mod d in
      if 2 * r < d then q
      else if d < 2 * r then q + 1
      else if even q then q else q + 1)"

text \<open>\<open>ilog2 n d\<close>: the integer \<open>k\<close> with \<open>2 ^ k \<le> n / d < 2 ^ (k + 1)\<close> (for \<open>0 < n\<close>, \<open>0 < d\<close>).\<close>

definition ilog2 :: "int \<Rightarrow> int \<Rightarrow> int" where
  "ilog2 n d =
     (let k = bitlen n - bitlen d in
      if (if 0 \<le> k then d * 2 ^ nat k \<le> n else d \<le> n * 2 ^ nat (- k)) then k else k - 1)"

function normalize_double :: "int \<Rightarrow> int \<Rightarrow> double" where
  "normalize_double m e =
     (if m = 0 then Double 0 0
      else if even m then normalize_double (m div 2) (e + 1)
      else Double m e)"
  by pat_completeness auto
termination
  by (relation "measure (\<lambda>(m, e). nat \<bar>m\<bar>)") auto

declare normalize_double.simps [simp del]

text \<open>\<open>round_double a d\<close>: the binary64 number nearest to the rational \<open>a / d\<close> (for \<open>0 < d\<close>).\<close>

definition round_double :: "int \<Rightarrow> int \<Rightarrow> double" where
  "round_double a d =
     (let n = \<bar>a\<bar> in
      if n = 0 then Double 0 0
      else let p = max (ilog2 n d - 52) (- 1074);
               m = (if 0 \<le> p then round_half_even n (d * 2 ^ nat p)
                    else round_half_even (n * 2 ^ nat (- p)) d)
           in normalize_double ((if a < 0 then - 1 else 1) * m) p)"

text \<open>\<open>round_scaled a d k\<close>: the binary64 number nearest to \<open>(a / d) * 2 ^ k\<close>.\<close>

definition round_scaled :: "int \<Rightarrow> int \<Rightarrow> int \<Rightarrow> double" where
  "round_scaled a d k =
     (if 0 \<le> k then round_double (a * 2 ^ nat k) d else round_double a (d * 2 ^ nat (- k)))"

fun fl_add :: "double \<Rightarrow> double \<Rightarrow> double" where
  "fl_add (Double m1 e1) (Double m2 e2) =
     (let e = min e1 e2 in round_scaled (m1 * 2 ^ nat (e1 - e) + m2 * 2 ^ nat (e2 - e)) 1 e)"

fun fl_sub :: "double \<Rightarrow> double \<Rightarrow> double" where
  "fl_sub (Double m1 e1) (Double m2 e2) =
     (let e = min e1 e2 in round_scaled (m1 * 2 ^ nat (e1 - e) - m2 * 2 ^ nat (e2 - e)) 1 e)"

fun fl_mul :: "double \<Rightarrow> double \<Rightarrow> double" where
  "fl_mul (Double m1 e1) (Double m2 e2) = round_scaled (m1 * m2) 1 (e1 + e2)"

text \<open>
  Float division. Python raises \<open>ZeroDivisionError\<close> on a zero divisor; the source divides
  only by the literals \<open>4\<close> and \<open>1000\<close>, so that case is not reached (it is given \<open>0.0\<close>).
\<close>

fun fl_div :: "double \<Rightarrow> double \<Rightarrow> double" where
  "fl_div (Double m1 e1) (Double m2 e2) =
     (if m2 = 0 then Double 0 0
      else round_scaled (if m2 < 0 then - m1 else m1) \<bar>m2\<bar> (e1 - e2))"

text \<open>\<open>float(n)\<close> for an \<open>int\<close>, a decimal literal \<open>a / d\<close>, and \<open>int / int\<close> (true division,
  which CPython rounds correctly from the exact quotient; the divisor is positive here).\<close>

definition float_of_int :: "int \<Rightarrow> double" where
  "float_of_int n = round_double n 1"

definition float_literal :: "int \<Rightarrow> int \<Rightarrow> double" where
  "float_literal a d = round_double a d"

definition int_truediv :: "int \<Rightarrow> int \<Rightarrow> double" where
  "int_truediv a b = round_double a b"

text \<open>The rational number a \<open>double\<close> denotes.\<close>

fun double_value :: "double \<Rightarrow> rat" where
  "double_value (Double m e) = (if 0 \<le> e then of_int m * 2 ^ nat e else of_int m / 2 ^ nat (- e))"

subsection \<open>Strings\<close>

text \<open>
  A Python \<open>str\<close> is a sequence of code points and \<open>len\<close> counts them. The model's
  \<open>string\<close> has one \<open>char\<close> for each code point. The two code points outside ASCII in the
  source's literals, U+2192 (rightwards arrow) and U+274C (cross mark), are written as the
  chars \<open>0x92\<close> and \<open>0x8C\<close>, so that lengths are those of the source.
  The strings of the model are ASCII text and these two chars. On them \<open>upper\<close> and
  \<open>lower\<close> are \<open>str.upper\<close> and \<open>str.lower\<close>: they change the ASCII letters and nothing
  else. (Python's methods also change letters outside ASCII, which the model's strings do
  not contain; a project name or a role with such letters is outside the model.)
\<close>

definition U2192 :: char where
  "U2192 = CHR 0x92"

definition U274C :: char where
  "U274C = CHR 0x8C"

definition upper_char :: "char \<Rightarrow> char" where
  "upper_char c = (let n = (of_char c :: nat) in if 97 \<le> n \<and> n \<le> 122 then char_of (n - 32) else c)"

definition lower_char :: "char \<Rightarrow> char" where
  "lower_char c = (let n = (of_char c :: nat) in if 65 \<le> n \<and> n \<le> 90 then char_of (n + 32) else c)"

definition upper :: "string \<Rightarrow> string" where
  "upper s = map upper_char s"

definition lower :: "string \<Rightarrow> string" where
  "lower s = map lower_char s"

text \<open>\<open>s.replace(' ', '_')\<close>\<close>

definition replace_space_underscore :: "string \<Rightarrow> string" where
  "replace_space_underscore s = map (\<lambda>c. if c = CHR '' '' then CHR ''_'' else c) s"

subsection \<open>Dictionaries, documents and exceptions\<close>

text \<open>
  The values found in a project document; \<open>SERVER_TIMESTAMP\<close> is the sentinel of the
  Firestore client, which the store replaces by its own time when it writes. A dict keeps
  its insertion order, which the prompt builder iterates, so a document is an association
  list.
  A chat message is a dict with the keys \<open>role\<close> and \<open>content\<close>.
\<close>

datatype pyval =
  PStr string | PInt int | PBool bool | PList "pyval list" | PTimestamp int | SERVER_TIMESTAMP

type_synonym document = "(string \<times> pyval) list"

type_synonym message = "(string \<times> string) list"

datatype exn = KeyError string | Exception string

text \<open>
  \<open>str(e)\<close>. \<open>Exception m\<close> is an exception whose \<open>str\<close> is \<open>m\<close>. A \<open>KeyError\<close> prints the
  repr of its key, and \<open>KeyError r\<close> carries that repr: the code raises it only through
  \<open>d[k]\<close> with a key it names, whose repr is written out where it does.
\<close>

fun str_exn :: "exn \<Rightarrow> string" where
  "str_exn (KeyError r) = r"
| "str_exn (Exception m) = m"

text \<open>\<open>d[k]\<close> on a dict, for a key \<open>k\<close> whose repr is \<open>repr_k\<close>.\<close>

definition getitem :: "('k \<times> 'v) list \<Rightarrow> 'k \<Rightarrow> string \<Rightarrow> exn + 'v" where
  "getitem d k repr_k = (case map_of d k of None \<Rightarrow> Inl (KeyError repr_k) | Some v \<Rightarrow> Inr v)"

section \<open>Model Gateway: \<open>vertex_claude_v2.py\<close>\<close>

datatype generative_model = GenerativeModel string

record vertex_claude_v2 =
  project_id :: "string option"
  location :: string
  model_name :: string
  model :: "generative_model option"
  last_request_cost :: double
  total_requests :: int
  total_cost :: double
  last_response_time :: double

text \<open>
  What the gateway touches outside itself: the remote endpoint, the wall clock and
  \<open>time.sleep\<close>. \<open>generate_content n prompt max_output_tokens temperature\<close> is the outcome
  of the remote call number \<open>n\<close> (counted from 0): the exception the call raises, or the
  response it returns. Reading \<open>response.text\<close> gives the text or raises in its turn.
  \<open>time_readings n\<close> is what the \<open>n\<close>-th call of \<open>time.time()\<close> returns. \<open>events\<close> records,
  oldest first, every remote call (\<open>Generate\<close>) and every \<open>time.sleep\<close> with its argument.
\<close>

datatype event = Generate | Sleep int

datatype response = Response "exn + string"

fun response_text :: "response \<Rightarrow> exn + string" where
  "response_text (Response t) = t"

record vertex_env =
  generate_content :: "nat \<Rightarrow> string \<Rightarrow> int \<Rightarrow> double \<Rightarrow> exn + response"
  remote_calls :: nat
  time_readings :: "nat \<Rightarrow> double"
  time_reads :: nat
  events :: "event list"

definition time_time :: "vertex_env \<Rightarrow> double \<times> vertex_env" where
  "time_time env = (time_readings env (time_reads env), env\<lparr>time_reads := Suc (time_reads env)\<rparr>)"

definition time_sleep :: "vertex_env \<Rightarrow> int \<Rightarrow> vertex_env" where
  "time_sleep env wait_time = env\<lparr>events := events env @ [Sleep wait_time]\<rparr>"

definition model_generate_content ::
  "vertex_env \<Rightarrow> string \<Rightarrow> int \<Rightarrow> double \<Rightarrow> (exn + response) \<times> vertex_env" where
  "model_generate_content env prompt max_output_tokens temperature =
     (generate_content env (remote_calls env) prompt max_output_tokens temperature,
      env\<lparr>remote_calls := Suc (remote_calls env), events := events env @ [Generate]\<rparr>)"

text \<open>\<open>PRICING\<close>\<close>

definition PRICING_input :: double where
  "PRICING_input = float_literal 3 1000"

definition PRICING_output :: double where
  "PRICING_output = float_literal 15 1000"

text \<open>\<open>_format_error\<close>\<close>

definition format_error :: "vertex_claude_v2 \<Rightarrow> string \<Rightarrow> string \<Rightarrow> string option \<Rightarrow> string" where
  "format_error self title details troubleshooting =
     (let error_msg = [U274C] @ '' **'' @ title @ ''**\<newline>\<newline>**Details:** '' @ details @ ''\<newline>'';
          error_msg = (case troubleshooting of
                         None \<Rightarrow> error_msg
                       | Some t \<Rightarrow> if t = [] then error_msg
                                  else error_msg @ ''\<newline>**Troubleshooting:**\<newline>'' @ t @ ''\<newline>'')
      in error_msg
         @ ''\<newline>**Configuration:**\<newline>- Project ID: ''
         @ (case project_id self of None \<Rightarrow> ''NOT SET'' | Some p \<Rightarrow> if p = [] then ''NOT SET'' else p)
         @ ''\<newline>- Region: '' @ location self
         @ ''\<newline>- Model: '' @ model_name self
         @ ''\<newline>\<newline>**Need Help?**\<newline>Check the deployment documentation or run the diagnostic script.\<newline>'')"

text \<open>\<open>_get_troubleshooting_steps\<close>\<close>

definition get_troubleshooting_steps :: string where
  "get_troubleshooting_steps =
     ''\<newline>1. Verify GCP_PROJECT_ID environment variable is set correctly''
   @ ''\<newline>2. Ensure Claude is enabled in Vertex AI Model Garden''
   @ ''\<newline>3. Check service account has Vertex AI User role''
   @ ''\<newline>4. Verify the model name is correct for your region''
   @ ''\<newline>5. Check GCP quotas and billing''
   @ ''\<newline>6. Review Cloud Logging for detailed error messages\<newline>''"

text \<open>The two fixed parts of the system prompt in \<open>_build_system_prompt\<close>.\<close>

definition base_prompt :: string where
  "base_prompt =
     ''You are Claude, technical co-founder in a 90-day bootstrap mission.''
   @ ''\<newline>\<newline>MISSION CONTEXT:''
   @ ''\<newline>- Partnership: James (vision/strategy) + Claude (technical/execution)''
   @ ''\<newline>- Timeline: Oct 17, 2025 '' @ [U2192] @ '' Jan 15, 2026 (90 days)''
   @ ''\<newline>- Goal: $15,000 monthly recurring revenue''
   @ ''\<newline>- Primary Revenue Stream: HAVEN Platform (community/service hub)''
   @ ''\<newline>- Infrastructure: GCP (Cloud Run, Firestore, Vertex AI)''
   @ ''\<newline>- Philosophy: Ship fast, iterate constantly, delegate to AI agents''
   @ ''\<newline>\<newline>CAPABILITIES:''
   @ ''\<newline>- Full-stack development (Python, JavaScript, React, FastAPI)''
   @ ''\<newline>- GCP infrastructure and deployment''
   @ ''\<newline>- Database design and optimization''
   @ ''\<newline>- API development and integration''
   @ ''\<newline>- UI/UX design with modern frameworks''
   @ ''\<newline>- DevOps and CI/CD pipelines''"

definition communication_style :: string where
  "communication_style =
     ''\<newline>COMMUNICATION STYLE:''
   @ ''\<newline>- Be direct, technical, and action-oriented''
   @ ''\<newline>- Provide working code examples''
   @ ''\<newline>- Include deployment and testing steps''
   @ ''\<newline>- Focus on pragmatic solutions''
   @ ''\<newline>- No unnecessary explanations''
   @ ''\<newline>\<newline>When asked to build something:''
   @ ''\<newline>1. Confirm requirements''
   @ ''\<newline>2. Design architecture''
   @ ''\<newline>3. Generate production-ready code''
   @ ''\<newline>4. Provide deployment instructions''
   @ ''\<newline>5. Suggest testing approaches\<newline>''"

text \<open>
  \<open>_build_system_prompt\<close>. The f-string \<open>{value}\<close> is Python's built-in \<open>str\<close> of the value,
  the parameter \<open>py_str\<close>. \<open>if context:\<close> is false for \<open>None\<close> and for the empty dict.
\<close>

definition context_line :: "(pyval \<Rightarrow> string) \<Rightarrow> string \<Rightarrow> string \<times> pyval \<Rightarrow> string" where
  "context_line py_str acc kv =
     (case kv of (key, value) \<Rightarrow>
        if key \<notin> set [''created_at'', ''last_updated'']
        then acc @ ''- '' @ key @ '': '' @ py_str value @ ''\<newline>''
        else acc)"

definition build_system_prompt :: "(pyval \<Rightarrow> string) \<Rightarrow> document option \<Rightarrow> string" where
  "build_system_prompt py_str context =
     (let prompt =
        (case context of
           None \<Rightarrow> base_prompt
         | Some items \<Rightarrow>
             if items = [] then base_prompt
             else foldl (context_line py_str)
                        (base_prompt @ ''\<newline>\<newline>CURRENT PROJECT CONTEXT:\<newline>'') items)
      in prompt @ communication_style)"

text \<open>
  \<open>_build_prompt\<close>. The loop over \<open>conversation_history[-10:]\<close>; \<open>msg['role']\<close> and
  \<open>msg['content']\<close> raise \<open>KeyError\<close> on a message without the key.
\<close>

fun add_history :: "string \<Rightarrow> message list \<Rightarrow> exn + string" where
  "add_history full_prompt [] = Inr full_prompt"
| "add_history full_prompt (msg # rest) =
     (case getitem msg ''role'' ([CHR 0x27] @ ''role'' @ [CHR 0x27]) of
        Inl e \<Rightarrow> Inl e
      | Inr role \<Rightarrow>
          (case getitem msg ''content'' ([CHR 0x27] @ ''content'' @ [CHR 0x27]) of
             Inl e \<Rightarrow> Inl e
           | Inr content \<Rightarrow>
               add_history (full_prompt @ upper role @ '': '' @ content @ ''\<newline>\<newline>'') rest))"

definition last10 :: "'a list \<Rightarrow> 'a list" where
  "last10 xs = drop (length xs - 10) xs"

definition build_prompt ::
  "(pyval \<Rightarrow> string) \<Rightarrow> string \<Rightarrow> document option \<Rightarrow> message list option \<Rightarrow> exn + string" where
  "build_prompt py_str user_message context conversation_history =
     (let system_prompt = build_system_prompt py_str context;
          full_prompt = system_prompt @ ''\<newline>\<newline>''
      in case (case conversation_history of
                 None \<Rightarrow> Inr full_prompt
               | Some h \<Rightarrow> if h = [] then Inr full_prompt else add_history full_prompt (last10 h)) of
           Inl e \<Rightarrow> Inl e
         | Inr full_prompt \<Rightarrow> Inr (full_prompt @ ''USER: '' @ user_message @ ''\<newline>\<newline>ASSISTANT:''))"

text \<open>
  The layout of the prompt in the specification's terms, to compare \<open>_build_prompt\<close> with:
  the timestamp fields the Persistence Gateway writes (\<open>created_at\<close> and \<open>updated_at\<close> on
  project documents, \<open>last_updated\<close> on conversation documents and, in the first version of
  the gateway, on project documents), the context's lines without them, the context block
  with its heading, and a history message rendered as \<open><ROLE>: <content>\<close> and a blank line.
\<close>

definition timestamp_fields :: "string list" where
  "timestamp_fields = [''created_at'', ''updated_at'', ''last_updated'']"

definition context_lines :: "(pyval \<Rightarrow> string) \<Rightarrow> document \<Rightarrow> string" where
  "context_lines py_str items =
     concat (map (\<lambda>kv. ''- '' @ fst kv @ '': '' @ py_str (snd kv) @ ''\<newline>'')
               (filter (\<lambda>kv. fst kv \<notin> set timestamp_fields) items))"

definition context_block :: "(pyval \<Rightarrow> string) \<Rightarrow> document option \<Rightarrow> string" where
  "context_block py_str context =
     (case context of
        None \<Rightarrow> []
      | Some items \<Rightarrow>
          if items = [] then []
          else ''\<newline>\<newline>CURRENT PROJECT CONTEXT:\<newline>'' @ context_lines py_str items)"

definition rendered_message :: "message \<Rightarrow> string" where
  "rendered_message msg =
     upper (the (map_of msg ''role'')) @ '': '' @ the (map_of msg ''content'') @ ''\<newline>\<newline>''"

text \<open>\<open>_calculate_cost\<close>\<close>

definition calculate_cost :: "vertex_claude_v2 \<Rightarrow> string \<Rightarrow> string \<Rightarrow> vertex_claude_v2" where
  "calculate_cost self prompt response =
     (let input_tokens = int_truediv (int (length prompt)) 4;
          output_tokens = int_truediv (int (length response)) 4;
          input_cost = fl_mul (fl_div input_tokens (float_of_int 1000)) PRICING_input;
          output_cost = fl_mul (fl_div output_tokens (float_of_int 1000)) PRICING_output;
          self = self\<lparr>last_request_cost := fl_add input_cost output_cost\<rparr>
      in self\<lparr>total_cost := fl_add (total_cost self) (last_request_cost self)\<rparr>)"

text \<open>
  \<open>chat\<close>. First the body of the \<open>try\<close> in the retry loop: the remote call, then the clock
  reading and \<open>last_response_time\<close>, then \<open>response.text\<close>, the cost and the request count.
  An exception leaves what was assigned before it. Then the loop
  \<open>for attempt in range(retry_count)\<close>, by recursion on the attempts still to make, and
  \<open>chat\<close> itself.
\<close>

definition try_generate ::
  "vertex_claude_v2 \<Rightarrow> vertex_env \<Rightarrow> string \<Rightarrow> double \<Rightarrow> int \<Rightarrow> double
     \<Rightarrow> (exn + string) \<times> vertex_claude_v2 \<times> vertex_env" where
  "try_generate self env full_prompt start_time max_tokens temperature =
     (case model_generate_content env full_prompt max_tokens temperature of
        (Inl e, env1) \<Rightarrow> (Inl e, self, env1)
      | (Inr response, env1) \<Rightarrow>
          (case time_time env1 of
             (now, env2) \<Rightarrow>
               (let self1 = self\<lparr>last_response_time := fl_sub now start_time\<rparr>
                in case response_text response of
                     Inl e \<Rightarrow> (Inl e, self1, env2)
                   | Inr text \<Rightarrow>
                       (let self2 = calculate_cost self1 full_prompt text;
                            self3 = self2\<lparr>total_requests := total_requests self2 + 1\<rparr>
                        in (Inr text, self3, env2)))))"

fun chat_attempts ::
  "vertex_claude_v2 \<Rightarrow> vertex_env \<Rightarrow> string \<Rightarrow> double \<Rightarrow> int \<Rightarrow> double \<Rightarrow> int \<Rightarrow> int list
     \<Rightarrow> string \<times> vertex_claude_v2 \<times> vertex_env" where
  "chat_attempts self env full_prompt start_time max_tokens temperature retry_count [] =
     (format_error self ''Maximum retries exceeded'' ''Please try again later'' None, self, env)"
| "chat_attempts self env full_prompt start_time max_tokens temperature retry_count (attempt # rest) =
     (case try_generate self env full_prompt start_time max_tokens temperature of
        (Inr text, self1, env1) \<Rightarrow> (text, self1, env1)
      | (Inl e, self1, env1) \<Rightarrow>
          if attempt < retry_count - 1
          then (let wait_time = (2 ^ nat attempt) * 1
                in chat_attempts self1 (time_sleep env1 wait_time) full_prompt start_time
                     max_tokens temperature retry_count rest)
          else (format_error self1 ''Vertex AI request failed'' (str_exn e)
                  (Some get_troubleshooting_steps), self1, env1))"

text \<open>\<open>range(n)\<close>\<close>

definition py_range :: "int \<Rightarrow> int list" where
  "py_range n = map int [0..<nat n]"

definition chat ::
  "(pyval \<Rightarrow> string) \<Rightarrow> vertex_claude_v2 \<Rightarrow> vertex_env \<Rightarrow> string \<Rightarrow> document option
     \<Rightarrow> message list option \<Rightarrow> int \<Rightarrow> double \<Rightarrow> int \<Rightarrow> string \<times> vertex_claude_v2 \<times> vertex_env" where
  "chat py_str self env user_message context conversation_history max_tokens temperature retry_count =
     (case model self of
        None \<Rightarrow>
          (format_error self ''Vertex AI not configured''
             ''Set GCP_PROJECT_ID environment variable and ensure Vertex AI is enabled'' None,
           self, env)
      | Some m \<Rightarrow>
          (case time_time env of
             (start_time, env1) \<Rightarrow>
               (case build_prompt py_str user_message context conversation_history of
                  Inl e \<Rightarrow> (format_error self ''Failed to build prompt'' (str_exn e) None, self, env1)
                | Inr full_prompt \<Rightarrow>
                    chat_attempts self env1 full_prompt start_time max_tokens temperature
                      retry_count (py_range retry_count))))"

text \<open>\<open>reset_stats\<close>\<close>

definition reset_stats :: "vertex_claude_v2 \<Rightarrow> vertex_claude_v2" where
  "reset_stats self =
     self\<lparr>total_requests := 0, total_cost := Double 0 0, last_request_cost := Double 0 0\<rparr>"

section \<open>Persistence Gateway: \<open>context_manager_v2.py\<close>\<close>

subsection \<open>The document store and the clock\<close>

text \<open>
  The store as the gateway uses it: the \<open>mission\<close>, \<open>projects\<close> and \<open>conversations\<close>
  collections keyed by document id, the append-only \<open>conversation_history\<close> collection, and a count of the
  accesses made (\<open>get\<close>, \<open>set\<close>, \<open>update\<close>; building a reference with \<open>collection\<close> and
  \<open>document\<close> is local and is not counted). \<open>faults n\<close> is the exception access number \<open>n\<close>
  raises, if any; \<open>server_time n\<close> is the store's time at access \<open>n\<close>.
\<close>

record conversation_data =
  conv_project :: string
  conv_messages :: "message list"
  message_count :: int
  last_updated :: pyval
  version :: int

record history_data =
  hist_project :: string
  hist_messages :: "message list"
  saved_at :: pyval
  hist_message_count :: int

record firestore =
  mission :: "string \<rightharpoonup> document"
  projects :: "string \<rightharpoonup> document"
  conversations :: "string \<rightharpoonup> conversation_data"
  conversation_history :: "history_data list"
  faults :: "nat \<Rightarrow> exn option"
  accesses :: nat
  server_time :: "nat \<Rightarrow> int"

definition resolve_timestamp :: "firestore \<Rightarrow> pyval \<Rightarrow> pyval" where
  "resolve_timestamp fs v = (if v = SERVER_TIMESTAMP then PTimestamp (server_time fs (accesses fs)) else v)"

text \<open>\<open>db.collection('projects').document(doc_id).get()\<close>: the document, if it exists.\<close>

definition projects_get :: "firestore \<Rightarrow> string \<Rightarrow> (exn + document option) \<times> firestore" where
  "projects_get fs doc_id =
     (let fs1 = fs\<lparr>accesses := Suc (accesses fs)\<rparr>
      in case faults fs (accesses fs) of
           Some e \<Rightarrow> (Inl e, fs1)
         | None \<Rightarrow> (Inr (projects fs doc_id), fs1))"

text \<open>\<open>db.collection('mission').document(doc_id).get()\<close>\<close>

definition mission_get :: "firestore \<Rightarrow> string \<Rightarrow> (exn + document option) \<times> firestore" where
  "mission_get fs doc_id =
     (let fs1 = fs\<lparr>accesses := Suc (accesses fs)\<rparr>
      in case faults fs (accesses fs) of
           Some e \<Rightarrow> (Inl e, fs1)
         | None \<Rightarrow> (Inr (mission fs doc_id), fs1))"

text \<open>\<open>set(data)\<close> on a document of \<open>mission\<close> and of \<open>projects\<close>: replaces the document.\<close>

definition mission_set :: "firestore \<Rightarrow> string \<Rightarrow> document \<Rightarrow> (exn + unit) \<times> firestore" where
  "mission_set fs doc_id data =
     (let fs1 = fs\<lparr>accesses := Suc (accesses fs)\<rparr>
      in case faults fs (accesses fs) of
           Some e \<Rightarrow> (Inl e, fs1)
         | None \<Rightarrow>
             (Inr (),
              fs1\<lparr>mission := (mission fs)(doc_id \<mapsto>
                     map (\<lambda>kv. (fst kv, resolve_timestamp fs (snd kv))) data)\<rparr>))"

definition projects_set :: "firestore \<Rightarrow> string \<Rightarrow> document \<Rightarrow> (exn + unit) \<times> firestore" where
  "projects_set fs doc_id data =
     (let fs1 = fs\<lparr>accesses := Suc (accesses fs)\<rparr>
      in case faults fs (accesses fs) of
           Some e \<Rightarrow> (Inl e, fs1)
         | None \<Rightarrow>
             (Inr (),
              fs1\<lparr>projects := (projects fs)(doc_id \<mapsto>
                     map (\<lambda>kv. (fst kv, resolve_timestamp fs (snd kv))) data)\<rparr>))"

text \<open>\<open>d[k] = v\<close> and \<open>d.update(u)\<close> on dicts: a key already present keeps its place and takes
  the new value.\<close>

fun dict_set :: "('k \<times> 'v) list \<Rightarrow> 'k \<Rightarrow> 'v \<Rightarrow> ('k \<times> 'v) list" where
  "dict_set [] k v = [(k, v)]"
| "dict_set ((k', v') # d) k v = (if k' = k then (k, v) # d else (k', v') # dict_set d k v)"

definition dict_update :: "('k \<times> 'v) list \<Rightarrow> ('k \<times> 'v) list \<Rightarrow> ('k \<times> 'v) list" where
  "dict_update d u = foldl (\<lambda>d kv. dict_set d (fst kv) (snd kv)) d u"

text \<open>
  \<open>db.collection('projects').document(doc_id).update(update_data)\<close>: merges the fields into
  the document, and raises when the document does not exist.
\<close>

definition projects_update :: "firestore \<Rightarrow> string \<Rightarrow> document \<Rightarrow> (exn + unit) \<times> firestore" where
  "projects_update fs doc_id update_data =
     (let fs1 = fs\<lparr>accesses := Suc (accesses fs)\<rparr>
      in case faults fs (accesses fs) of
           Some e \<Rightarrow> (Inl e, fs1)
         | None \<Rightarrow>
             (case projects fs doc_id of
                None \<Rightarrow> (Inl (Exception ''404 No document to update''), fs1)
              | Some doc \<Rightarrow>
                  (Inr (),
                   fs1\<lparr>projects := (projects fs)(doc_id \<mapsto>
                          dict_update doc (map (\<lambda>kv. (fst kv, resolve_timestamp fs (snd kv))) update_data))\<rparr>)))"

text \<open>\<open>db.collection('conversations').document(doc_id).set(data)\<close>: replaces the document.\<close>

definition conversations_set ::
  "firestore \<Rightarrow> string \<Rightarrow> conversation_data \<Rightarrow> (exn + unit) \<times> firestore" where
  "conversations_set fs doc_id data =
     (let fs1 = fs\<lparr>accesses := Suc (accesses fs)\<rparr>
      in case faults fs (accesses fs) of
           Some e \<Rightarrow> (Inl e, fs1)
         | None \<Rightarrow>
             (Inr (),
              fs1\<lparr>conversations := (conversations fs)(doc_id \<mapsto>
                     data\<lparr>last_updated := resolve_timestamp fs (last_updated data)\<rparr>)\<rparr>))"

text \<open>\<open>db.collection('conversation_history').document().set(data)\<close>: a new document with a
  fresh identifier.\<close>

definition conversation_history_add ::
  "firestore \<Rightarrow> history_data \<Rightarrow> (exn + unit) \<times> firestore" where
  "conversation_history_add fs data =
     (let fs1 = fs\<lparr>accesses := Suc (accesses fs)\<rparr>
      in case faults fs (accesses fs) of
           Some e \<Rightarrow> (Inl e, fs1)
         | None \<Rightarrow>
             (Inr (),
              fs1\<lparr>conversation_history := conversation_history fs
                     @ [data\<lparr>saved_at := resolve_timestamp fs (saved_at data)\<rparr>]\<rparr>))"

text \<open>
  \<open>datetime.now()\<close>, in microseconds: \<open>now_readings n\<close> is what the \<open>n\<close>-th call returns.
  \<open>timedelta(seconds=s)\<close> is \<open>s\<close> seconds in the same unit.
\<close>

record clock =
  now_readings :: "nat \<Rightarrow> int"
  now_reads :: nat

definition datetime_now :: "clock \<Rightarrow> int \<times> clock" where
  "datetime_now clk = (now_readings clk (now_reads clk), clk\<lparr>now_reads := Suc (now_reads clk)\<rparr>)"

definition timedelta_seconds :: "int \<Rightarrow> int" where
  "timedelta_seconds s = s * 1000000"

subsection \<open>The gateway\<close>

text \<open>
  \<open>db\<close> is \<open>None\<close> when the client could not be created. (\<open>self.project_id\<close>, read only by
  the constructor and by \<open>health_check\<close>, is left out.)
\<close>

record context_manager_v2 =
  db :: "firestore option"
  cache :: "string \<rightharpoonup> (document \<times> int)"
  cache_ttl :: int

text \<open>\<open>name.lower().replace(' ', '_')\<close>\<close>

definition document_id :: "string \<Rightarrow> string" where
  "document_id name = replace_space_underscore (lower name)"

text \<open>\<open>_get_default_project_context\<close>\<close>

definition get_default_project_context :: "string \<Rightarrow> document" where
  "get_default_project_context project_name =
     [(''name'', PStr project_name),
      (''status'', PStr ''Unknown''),
      (''description'', PStr ''Context unavailable - Firestore not connected''),
      (''offline_mode'', PBool True)]"

text \<open>\<open>get_project_context\<close>: first the part from \<open># Fetch from Firestore\<close> on, which both
  a missing and an expired cache entry lead to, then the whole function.\<close>

definition fetch_project_context ::
  "context_manager_v2 \<Rightarrow> clock \<Rightarrow> string \<Rightarrow> document \<times> context_manager_v2 \<times> clock" where
  "fetch_project_context self clk project_name =
     (case db self of
        None \<Rightarrow> (get_default_project_context project_name, self, clk)
      | Some fs \<Rightarrow>
          (let doc_id = document_id project_name
           in case projects_get fs doc_id of
                (Inr (Some context), fs1) \<Rightarrow>
                  (case datetime_now clk of
                     (now, clk1) \<Rightarrow>
                       (context,
                        self\<lparr>db := Some fs1,
                             cache := (cache self)(''project_'' @ project_name \<mapsto> (context, now))\<rparr>,
                        clk1))
              | (Inr None, fs1) \<Rightarrow>
                  (get_default_project_context project_name, self\<lparr>db := Some fs1\<rparr>, clk)
              | (Inl e, fs1) \<Rightarrow>
                  (get_default_project_context project_name, self\<lparr>db := Some fs1\<rparr>, clk)))"

definition get_project_context ::
  "context_manager_v2 \<Rightarrow> clock \<Rightarrow> string \<Rightarrow> document \<times> context_manager_v2 \<times> clock" where
  "get_project_context self clk project_name =
     (let cache_key = ''project_'' @ project_name
      in case cache self cache_key of
           Some (cached_data, cached_time) \<Rightarrow>
             (case datetime_now clk of
                (now, clk1) \<Rightarrow>
                  if now - cached_time < timedelta_seconds (cache_ttl self)
                  then (cached_data, self, clk1)
                  else fetch_project_context self clk1 project_name)
         | None \<Rightarrow> fetch_project_context self clk project_name)"

text \<open>\<open>_save_conversation_history\<close>: a failure is logged and goes no further.\<close>

definition save_conversation_history :: "firestore \<Rightarrow> string \<Rightarrow> message list \<Rightarrow> firestore" where
  "save_conversation_history fs project messages =
     (case conversation_history_add fs
             \<lparr>hist_project = project, hist_messages = messages, saved_at = SERVER_TIMESTAMP,
              hist_message_count = int (length messages)\<rparr> of
        (Inr u, fs1) \<Rightarrow> fs1
      | (Inl e, fs1) \<Rightarrow> fs1)"

text \<open>\<open>save_conversation\<close>\<close>

definition save_conversation ::
  "context_manager_v2 \<Rightarrow> string \<Rightarrow> message list \<Rightarrow> bool \<times> context_manager_v2" where
  "save_conversation self project messages =
     (case db self of
        None \<Rightarrow> (False, self)
      | Some fs \<Rightarrow>
          (let doc_id = document_id project;
               conversation_data =
                 \<lparr>conv_project = project, conv_messages = messages,
                  message_count = int (length messages), last_updated = SERVER_TIMESTAMP,
                  version = 2\<rparr>
           in case conversations_set fs doc_id conversation_data of
                (Inr u, fs1) \<Rightarrow>
                  (True, self\<lparr>db := Some (save_conversation_history fs1 project messages)\<rparr>)
              | (Inl e, fs1) \<Rightarrow> (False, self\<lparr>db := Some fs1\<rparr>)))"

text \<open>\<open>update_project_status\<close> and \<open>clear_cache\<close>, the other two writers of the cache.\<close>

definition update_project_status ::
  "context_manager_v2 \<Rightarrow> string \<Rightarrow> string \<Rightarrow> document option \<Rightarrow> bool \<times> context_manager_v2" where
  "update_project_status self project status updates =
     (case db self of
        None \<Rightarrow> (False, self)
      | Some fs \<Rightarrow>
          (let doc_id = document_id project;
               update_data = [(''status'', PStr status), (''updated_at'', SERVER_TIMESTAMP)];
               update_data = (case updates of
                                None \<Rightarrow> update_data
                              | Some u \<Rightarrow> if u = [] then update_data else dict_update update_data u)
           in case projects_update fs doc_id update_data of
                (Inr u, fs1) \<Rightarrow>
                  (True, self\<lparr>db := Some fs1, cache := (cache self)(''project_'' @ project := None)\<rparr>)
              | (Inl e, fs1) \<Rightarrow> (False, self\<lparr>db := Some fs1\<rparr>)))"

definition clear_cache :: "context_manager_v2 \<Rightarrow> context_manager_v2" where
  "clear_cache self = self\<lparr>cache := Map.empty\<rparr>"

subsection \<open>The constructor\<close>

text \<open>\<open>mission_data\<close> in \<open>_initialize_mission_context\<close> and \<open>projects\<close> in
  \<open>_initialize_projects\<close>.\<close>

definition mission_data :: document where
  "mission_data =
     [(''start_date'', PStr ''2025-10-17''),
      (''deadline'', PStr ''2026-01-15''),
      (''goal_revenue'', PInt 15000),
      (''currency'', PStr ''USD''),
      (''primary_stream'', PStr ''HAVEN Platform''),
      (''secondary_stream'', PStr ''To Be Determined''),
      (''tertiary_stream'', PStr ''To Be Determined''),
      (''founder'', PStr ''James''),
      (''co_founder'', PStr ''Claude AI''),
      (''philosophy'', PStr ''Ship fast, iterate constantly, delegate to AI agents''),
      (''tech_stack'', PList [PStr ''GCP'', PStr ''Python'', PStr ''FastAPI'', PStr ''React'',
                              PStr ''Firestore'']),
      (''created_at'', SERVER_TIMESTAMP),
      (''updated_at'', SERVER_TIMESTAMP)]"

definition default_projects :: "(string \<times> document) list" where
  "default_projects =
     [(''haven_platform'',
       [(''name'', PStr ''HAVEN Platform''),
        (''status'', PStr ''Live''),
        (''description'', PStr ''Community/service hub - primary revenue stream''),
        (''tech_stack'', PList [PStr ''FastAPI'', PStr ''PostgreSQL'', PStr ''Cloud Run'', PStr ''React'']),
        (''priority'', PInt 1),
        (''revenue_target'', PInt 10000),
        (''launch_date'', PStr ''2025-11-01''),
        (''features'', PList [PStr ''User authentication'', PStr ''Service marketplace'',
                              PStr ''Community forums'', PStr ''Payment processing''])]),
      (''first_contact'',
       [(''name'', PStr ''First Contact''),
        (''status'', PStr ''Building''),
        (''description'', PStr ''Civic innovation platform''),
        (''tech_stack'', PList [PStr ''To Be Determined'']),
        (''priority'', PInt 2),
        (''revenue_target'', PInt 3000),
        (''launch_date'', PStr ''2025-12-01''),
        (''features'', PList [PStr ''Community engagement'', PStr ''Resource coordination''])]),
      (''company_site'',
       [(''name'', PStr ''Company Site''),
        (''status'', PStr ''Planning''),
        (''description'', PStr ''Professional company website and portfolio''),
        (''tech_stack'', PList [PStr ''Next.js'', PStr ''TailwindCSS'', PStr ''Vercel'']),
        (''priority'', PInt 3),
        (''revenue_target'', PInt 2000),
        (''launch_date'', PStr ''2025-12-15''),
        (''features'', PList [PStr ''Portfolio showcase'', PStr ''Contact forms'',
                              PStr ''Blog/updates''])])]"

text \<open>
  \<open>_initialize_projects\<close>: the loop over the projects. A project whose document exists is
  left alone; an exception is logged and the loop goes on.
\<close>

fun initialize_projects :: "firestore \<Rightarrow> (string \<times> document) list \<Rightarrow> firestore" where
  "initialize_projects fs [] = fs"
| "initialize_projects fs ((doc_id, project_data) # rest) =
     (case projects_get fs doc_id of
        (Inl e, fs1) \<Rightarrow> initialize_projects fs1 rest
      | (Inr (Some doc), fs1) \<Rightarrow> initialize_projects fs1 rest
      | (Inr None, fs1) \<Rightarrow>
          (let project_data = dict_set project_data ''created_at'' SERVER_TIMESTAMP;
               project_data = dict_set project_data ''updated_at'' SERVER_TIMESTAMP
           in case projects_set fs1 doc_id project_data of
                (Inl e, fs2) \<Rightarrow> initialize_projects fs2 rest
              | (Inr u, fs2) \<Rightarrow> initialize_projects fs2 rest))"

text \<open>
  \<open>_initialize_mission_context\<close>, on the store of a gateway that has one. An exception
  of the mission document's \<open>get\<close> or \<open>set\<close> is logged and ends the function before the
  projects.
\<close>

definition initialize_mission_context :: "firestore \<Rightarrow> firestore" where
  "initialize_mission_context fs =
     (case mission_get fs ''bootstrap'' of
        (Inl e, fs1) \<Rightarrow> fs1
      | (Inr (Some doc), fs1) \<Rightarrow> initialize_projects fs1 default_projects
      | (Inr None, fs1) \<Rightarrow>
          (case mission_set fs1 ''bootstrap'' mission_data of
             (Inl e, fs2) \<Rightarrow> fs2
           | (Inr u, fs2) \<Rightarrow> initialize_projects fs2 default_projects))"

text \<open>
  \<open>__init__\<close>. \<open>env_project_id\<close> is \<open>os.getenv('GCP_PROJECT_ID')\<close>; \<open>client\<close> is what
  \<open>firestore.Client(project=...)\<close> does: it raises, or gives access to a store.
\<close>

definition ContextManagerV2 :: "string option \<Rightarrow> exn + firestore \<Rightarrow> context_manager_v2" where
  "ContextManagerV2 env_project_id client =
     (let self = \<lparr>db = None, cache = Map.empty, cache_ttl = 300\<rparr>
      in case env_project_id of
           None \<Rightarrow> self
         | Some p \<Rightarrow>
             if p = [] then self
             else (case client of
                     Inr fs \<Rightarrow> self\<lparr>db := Some (initialize_mission_context fs)\<rparr>
                   | Inl e \<Rightarrow> self\<lparr>db := None\<rparr>))"

subsection \<open>A gateway in use\<close>

text \<open>
  The calls a gateway receives after its construction. \<open>OtherAccess\<close> stands for the
  methods that make one access to the store and assign nothing in the gateway:
  \<open>get_last_conversation\<close>, \<open>log_execution\<close>, \<open>get_usage_stats\<close> and \<open>health_check\<close>.
  \<open>after_calls\<close> is the gateway after a sequence of calls.
\<close>

datatype call =
  GetProjectContext string
| SaveConversation string "message list"
| UpdateProjectStatus string string "document option"
| ClearCache
| OtherAccess

fun after_call :: "context_manager_v2 \<Rightarrow> clock \<Rightarrow> call \<Rightarrow> context_manager_v2 \<times> clock" where
  "after_call self clk (GetProjectContext project_name) = snd (get_project_context self clk project_name)"
| "after_call self clk (SaveConversation project msgs) = (snd (save_conversation self project msgs), clk)"
| "after_call self clk (UpdateProjectStatus project status updates) =
     (snd (update_project_status self project status updates), clk)"
| "after_call self clk ClearCache = (clear_cache self, clk)"
| "after_call self clk OtherAccess =
     (self\<lparr>db := map_option (\<lambda>fs. fs\<lparr>accesses := Suc (accesses fs)\<rparr>) (db self)\<rparr>, clk)"

fun after_calls :: "context_manager_v2 \<Rightarrow> clock \<Rightarrow> call list \<Rightarrow> context_manager_v2 \<times> clock" where
  "after_calls self clk [] = (self, clk)"
| "after_calls self clk (c # cs) = (case after_call self clk c of (self1, clk1) \<Rightarrow> after_calls self1 clk1 cs)"

section \<open>Session Controller: \<open>handle_user_input\<close> in \<open>app_v2.py\<close>\<close>

text \<open>
  \<open>st.session_state\<close>, with \<open>session_total_cost\<close> for its \<open>total_cost\<close>. The calls that draw
  the page (\<open>st.chat_message\<close>, \<open>st.markdown\<close>, \<open>st.spinner\<close>) and the logger are left out.
  Neither \<open>get_project_context\<close> nor \<open>chat\<close> nor \<open>save_conversation\<close> raises, so the handlers
  of the two \<open>try\<close> statements are not entered. \<open>chat\<close> is called with its default
  \<open>max_tokens = 4096\<close>, \<open>temperature = 0.7\<close> and \<open>retry_count = 3\<close>.
\<close>

record session_state =
  messages :: "message list"
  current_project :: string
  request_count :: int
  session_total_cost :: double
  context_manager :: context_manager_v2
  vertex_claude :: vertex_claude_v2

definition handle_user_input ::
  "(pyval \<Rightarrow> string) \<Rightarrow> session_state \<Rightarrow> clock \<Rightarrow> vertex_env \<Rightarrow> string
     \<Rightarrow> session_state \<times> clock \<times> vertex_env" where
  "handle_user_input py_str st clk env user_input =
     (let st = st\<lparr>messages := messages st @ [[(''role'', ''user''), (''content'', user_input)]]\<rparr>
      in case get_project_context (context_manager st) clk (current_project st) of
           (context, cm1, clk1) \<Rightarrow>
             (let st = st\<lparr>context_manager := cm1\<rparr>
              in case chat py_str (vertex_claude st) env user_input (Some context)
                        (Some (messages st)) 4096 (float_literal 7 10) 3 of
                   (response, vc1, env1) \<Rightarrow>
                     (let st = st\<lparr>vertex_claude := vc1\<rparr>;
                          st = st\<lparr>request_count := request_count st + 1\<rparr>;
                          st = st\<lparr>session_total_cost :=
                                    fl_add (session_total_cost st) (last_request_cost (vertex_claude st))\<rparr>;
                          st = st\<lparr>messages := messages st
                                    @ [[(''role'', ''assistant''), (''content'', response)]]\<rparr>
                      in case save_conversation (context_manager st) (current_project st) (messages st) of
                           (saved, cm2) \<Rightarrow> (st\<lparr>context_manager := cm2\<rparr>, clk1, env1))))"

section \<open>Example states\<close>

text \<open>Concrete inputs on which the theorems below are instantiated.\<close>

definition example_gateway :: vertex_claude_v2 where
  "example_gateway =
     \<lparr>project_id = Some ''valhalla'', location = ''us-central1'',
      model_name = ''claude-3-5-sonnet@20240620'',
      model = Some (GenerativeModel ''claude-3-5-sonnet@20240620''),
      last_request_cost = Double 0 0, total_requests = 0, total_cost = Double 0 0,
      last_response_time = Double 0 0\<rparr>"

text \<open>An endpoint that raises on every call, and one that raises once and then answers.\<close>

definition env_always_failing :: vertex_env where
  "env_always_failing =
     \<lparr>generate_content = (\<lambda>n prompt max_output_tokens temperature. Inl (Exception ''503 unavailable'')),
      remote_calls = 0, time_readings = (\<lambda>n. float_of_int (int n)), time_reads = 0, events = []\<rparr>"

definition env_failing_once :: vertex_env where
  "env_failing_once =
     \<lparr>generate_content = (\<lambda>n prompt max_output_tokens temperature.
                            if n = 0 then Inl (Exception ''429 quota'')
                            else Inr (Response (Inr ''OK''))),
      remote_calls = 0, time_readings = (\<lambda>n. float_of_int (int n)), time_reads = 0, events = []\<rparr>"

text \<open>A store holding one project, a gateway on it with an empty cache, and a clock that
  advances one second at each reading.\<close>

definition haven_platform :: document where
  "haven_platform =
     [(''name'', PStr ''HAVEN Platform''), (''status'', PStr ''Live''), (''priority'', PInt 1)]"

definition example_store :: firestore where
  "example_store =
     \<lparr>mission = Map.empty, projects = [''haven_platform'' \<mapsto> haven_platform],
      conversations = Map.empty,
      conversation_history = [], faults = (\<lambda>n. None), accesses = 0,
      server_time = (\<lambda>n. int n)\<rparr>"

definition example_manager :: context_manager_v2 where
  "example_manager = \<lparr>db = Some example_store, cache = Map.empty, cache_ttl = 300\<rparr>"

definition example_clock :: clock where
  "example_clock = \<lparr>now_readings = (\<lambda>n. int n * 1000000), now_reads = 0\<rparr>"

text \<open>A store on which every access raises, and a gateway on it.\<close>

definition failing_store :: firestore where
  "failing_store = example_store\<lparr>faults := (\<lambda>n. Some (Exception ''503 unavailable''))\<rparr>"

definition manager_store_down :: context_manager_v2 where
  "manager_store_down = \<lparr>db = Some failing_store, cache = Map.empty, cache_ttl = 300\<rparr>"

text \<open>A store whose second access (the backup write of a first save) raises.\<close>

definition store_backup_failing :: firestore where
  "store_backup_failing =
     example_store\<lparr>faults := (\<lambda>n. if n = 1 then Some (Exception ''503 unavailable'') else None)\<rparr>"

definition manager_backup_failing :: context_manager_v2 where
  "manager_backup_failing = \<lparr>db = Some store_backup_failing, cache = Map.empty, cache_ttl = 300\<rparr>"

definition user_msg :: "string \<Rightarrow> message" where
  "user_msg text = [(''role'', ''user''), (''content'', text)]"

definition assistant_msg :: "string \<Rightarrow> message" where
  "assistant_msg text = [(''role'', ''assistant''), (''content'', text)]"

definition five_messages :: "message list" where
  "five_messages =
     [assistant_msg ''welcome'', user_msg ''one'', assistant_msg ''two'',
      user_msg ''three'', assistant_msg ''four'']"

definition two_messages :: "message list" where
  "two_messages = [assistant_msg ''welcome'', user_msg ''again'']"


definition store_going_down :: firestore where
  "store_going_down =
     example_store\<lparr>faults := (\<lambda>n. if n < 8 then None else Some (Exception ''503 unavailable''))\<rparr>"

definition manager_going_down :: context_manager_v2 where
  "manager_going_down = ContextManagerV2 (Some ''valhalla'') (Inr store_going_down)"

definition manager_gone_down :: context_manager_v2 where
  "manager_gone_down =
     fst (after_calls manager_going_down example_clock [GetProjectContext ''HAVEN Platform''])"

definition manager_never_answered :: context_manager_v2 where
  "manager_never_answered =
     fst (after_calls (ContextManagerV2 (Some ''valhalla'') (Inr failing_store)) example_clock
            [GetProjectContext ''X'', SaveConversation ''X'' five_messages])"

text \<open>A rendering of values, a project context and a history of fifteen messages.\<close>

definition example_py_str :: "pyval \<Rightarrow> string" where
  "example_py_str v =
     (case v of PStr s \<Rightarrow> s | PTimestamp t \<Rightarrow> ''2025-10-17 00:00:00+00:00'' | _ \<Rightarrow> [])"

definition example_context :: document where
  "example_context =
     [(''name'', PStr ''X''), (''created_at'', PTimestamp 1), (''updated_at'', PTimestamp 2)]"

definition fifteen_messages :: "message list" where
  "fifteen_messages =
     [assistant_msg ''m1'', user_msg ''m2'', assistant_msg ''m3'', user_msg ''m4'',
      assistant_msg ''m5'', user_msg ''m6'', assistant_msg ''m7'', user_msg ''m8'',
      assistant_msg ''m9'', user_msg ''m10'', assistant_msg ''m11'', user_msg ''m12'',
      assistant_msg ''m13'', user_msg ''m14'', assistant_msg ''m15'']"

text \<open>A gateway without endpoint, and a session on it.\<close>

definition unconfigured_gateway :: vertex_claude_v2 where
  "unconfigured_gateway =
     \<lparr>project_id = None, location = ''us-central1'',
      model_name = ''claude-3-5-sonnet@20240620'', model = None,
      last_request_cost = Double 0 0, total_requests = 0, total_cost = Double 0 0,
      last_response_time = Double 0 0\<rparr>"

definition unconfigured_session :: session_state where
  "unconfigured_session =
     \<lparr>messages = [], current_project = ''HAVEN Platform'', request_count = 0,
      session_total_cost = Double 0 0, context_manager = example_manager,
      vertex_claude = unconfigured_gateway\<rparr>"

section \<open>Properties of the Model Gateway\<close>

lemmas double_eval =
  round_double_def round_scaled_def ilog2_def round_half_even_def compute_bitlen
  normalize_double.simps float_literal_def float_of_int_def int_truediv_def Let_def

lemma build_prompt_no_history:
  "build_prompt py_str user_message context None =
     Inr (build_system_prompt py_str context @ ''\<newline>\<newline>'' @ ''USER: '' @ user_message
          @ ''\<newline>\<newline>ASSISTANT:'')"
  by (simp add: build_prompt_def)

subsection \<open>The retry loop\<close>

lemma try_generate_raises:
  assumes "generate_content env (remote_calls env) p mt t = Inl e"
  shows "try_generate self env p st mt t =
           (Inl e, self, env\<lparr>remote_calls := Suc (remote_calls env), events := events env @ [Generate]\<rparr>)"
  using assms by (simp add: try_generate_def model_generate_content_def)

lemma try_generate_answers:
  assumes "generate_content env (remote_calls env) p mt t = Inr (Response (Inr answer))"
  shows "try_generate self env p st mt t =
           (Inr answer,
            (calculate_cost
               (self\<lparr>last_response_time := fl_sub (time_readings env (time_reads env)) st\<rparr>) p answer)
               \<lparr>total_requests := total_requests self + 1\<rparr>,
            env\<lparr>remote_calls := Suc (remote_calls env), events := events env @ [Generate],
                time_reads := Suc (time_reads env)\<rparr>)"
  using assms
  by (simp add: try_generate_def model_generate_content_def time_time_def calculate_cost_def Let_def)

text \<open>A failed attempt changes neither the cost figures nor the request count, and makes one remote call.\<close>

lemma try_generate_fails:
  assumes "try_generate self env p st mt t = (Inl e, self1, env1)"
  shows "last_request_cost self1 = last_request_cost self \<and> total_cost self1 = total_cost self
     \<and> total_requests self1 = total_requests self
     \<and> generate_content env1 = generate_content env
     \<and> remote_calls env1 = Suc (remote_calls env)"
  using assms
  by (auto simp add: try_generate_def model_generate_content_def time_time_def Let_def
      split: sum.splits prod.splits)

lemma try_generate_cases:
  "(\<exists>e self1 env1. try_generate self env p st mt t = (Inl e, self1, env1)) \<or>
   (\<exists>answer. generate_content env (remote_calls env) p mt t = Inr (Response (Inr answer)))"
proof (cases "generate_content env (remote_calls env) p mt t")
  case (Inl e)
  then show ?thesis by (simp add: try_generate_raises)
next
  case (Inr resp)
  obtain u where u: "resp = Response u" by (cases resp)
  show ?thesis
  proof (cases u)
    case (Inl e)
    with Inr u show ?thesis
      by (simp add: try_generate_def model_generate_content_def time_time_def Let_def)
  next
    case (Inr answer)
    with \<open>generate_content env (remote_calls env) p mt t = Inr resp\<close> u show ?thesis by simp
  qed
qed

text \<open>
  If the first \<open>k\<close> attempts fail (the call raises, or the response has no text) and
  attempt \<open>k\<close> answers, the loop returns the answer, having recorded the cost and one more
  request.
\<close>

lemma chat_attempts_success:
  assumes "k < length atts"
    and "\<forall>i<k. atts ! i < retry_count - 1"
    and "\<forall>i<k. \<forall>a. generate_content env (remote_calls env + i) p mt t \<noteq> Inr (Response (Inr a))"
    and "generate_content env (remote_calls env + k) p mt t = Inr (Response (Inr answer))"
  shows "\<exists>self' env'. chat_attempts self env p st mt t retry_count atts = (answer, self', env')
     \<and> last_request_cost self' =
        fl_add (fl_mul (fl_div (int_truediv (int (length p)) 4) (float_of_int 1000)) PRICING_input)
               (fl_mul (fl_div (int_truediv (int (length answer)) 4) (float_of_int 1000)) PRICING_output)
     \<and> total_cost self' = fl_add (total_cost self) (last_request_cost self')
     \<and> total_requests self' = total_requests self + 1
     \<and> remote_calls env' = remote_calls env + k + 1"
  using assms
proof (induction atts arbitrary: self env k)
  case Nil
  then show ?case by simp
next
  case (Cons a rest)
  show ?case
  proof (cases k)
    case 0
    with Cons.prems(4) have "generate_content env (remote_calls env) p mt t = Inr (Response (Inr answer))"
      by simp
    from try_generate_answers [OF this, of self st] 0 show ?thesis
      by (simp add: calculate_cost_def Let_def)
  next
    case (Suc k')
    from Cons.prems(3) Suc
    have "\<forall>a. generate_content env (remote_calls env) p mt t \<noteq> Inr (Response (Inr a))"
      by force
    with try_generate_cases [of self env p st mt t] obtain e self1 env1 where
      tg: "try_generate self env p st mt t = (Inl e, self1, env1)" by blast
    from try_generate_fails [OF tg]
    have f: "last_request_cost self1 = last_request_cost self" "total_cost self1 = total_cost self"
      "total_requests self1 = total_requests self" "generate_content env1 = generate_content env"
      "remote_calls env1 = Suc (remote_calls env)" by simp_all
    from Cons.prems Suc have a: "a < retry_count - 1" by force
    let ?env2 = "time_sleep env1 ((2 ^ nat a) * 1)"
    have 1: "k' < length rest" using Cons.prems Suc by simp
    have 2: "\<forall>i<k'. rest ! i < retry_count - 1" using Cons.prems Suc by force
    have 3: "\<forall>i<k'. \<forall>a. generate_content ?env2 (remote_calls ?env2 + i) p mt t \<noteq> Inr (Response (Inr a))"
      using Cons.prems(3) Suc f by (force simp: time_sleep_def)
    have 4: "generate_content ?env2 (remote_calls ?env2 + k') p mt t = Inr (Response (Inr answer))"
      using Cons.prems(4) Suc f by (simp add: time_sleep_def)
    from Cons.IH [OF 1 2 3 4, of self1] obtain self' env' where
      "chat_attempts self1 ?env2 p st mt t retry_count rest = (answer, self', env')"
      and "last_request_cost self' =
        fl_add (fl_mul (fl_div (int_truediv (int (length p)) 4) (float_of_int 1000)) PRICING_input)
               (fl_mul (fl_div (int_truediv (int (length answer)) 4) (float_of_int 1000)) PRICING_output)"
      and "total_cost self' = fl_add (total_cost self1) (last_request_cost self')"
      and "total_requests self' = total_requests self1 + 1"
      and "remote_calls env' = remote_calls ?env2 + k' + 1"
      by blast
    then show ?thesis using tg a Suc f
      by (simp add: time_sleep_def)
  qed
qed

text \<open>
  C1. A configured gateway, \<open>retry_count = 3\<close>, a prompt that builds, and a remote call that
  raises at each of the three attempts: \<open>chat\<close> makes exactly three remote calls, sleeps 1
  second after the first failure and 2 seconds after the second, does not sleep after the
  third, and returns, without raising, the formatted error message: the title
  \<open>Vertex AI request failed\<close>, the text of the last failure as details, the six
  troubleshooting steps, and the configuration (project id or \<open>NOT SET\<close>, region, model
  name). The gateway is unchanged.
\<close>

theorem chat_retry_backoff:
  assumes "model self = Some m"
    and "build_prompt py_str user_message context history = Inr full_prompt"
    and "generate_content env (remote_calls env) full_prompt max_tokens temperature = Inl e0"
    and "generate_content env (remote_calls env + 1) full_prompt max_tokens temperature = Inl e1"
    and "generate_content env (remote_calls env + 2) full_prompt max_tokens temperature = Inl e2"
  shows "chat py_str self env user_message context history max_tokens temperature 3 =
     ([U274C] @ '' **Vertex AI request failed**\<newline>\<newline>**Details:** '' @ str_exn e2 @ ''\<newline>''
      @ ''\<newline>**Troubleshooting:**\<newline>''
      @ ''\<newline>1. Verify GCP_PROJECT_ID environment variable is set correctly''
      @ ''\<newline>2. Ensure Claude is enabled in Vertex AI Model Garden''
      @ ''\<newline>3. Check service account has Vertex AI User role''
      @ ''\<newline>4. Verify the model name is correct for your region''
      @ ''\<newline>5. Check GCP quotas and billing''
      @ ''\<newline>6. Review Cloud Logging for detailed error messages\<newline>''
      @ ''\<newline>''
      @ ''\<newline>**Configuration:**\<newline>- Project ID: ''
      @ (case project_id self of None \<Rightarrow> ''NOT SET'' | Some p \<Rightarrow> if p = [] then ''NOT SET'' else p)
      @ ''\<newline>- Region: '' @ location self
      @ ''\<newline>- Model: '' @ model_name self
      @ ''\<newline>\<newline>**Need Help?**\<newline>Check the deployment documentation or run the diagnostic script.\<newline>'',
      self,
      env\<lparr>remote_calls := remote_calls env + 3, time_reads := Suc (time_reads env),
          events := events env @ [Generate, Sleep 1, Generate, Sleep 2, Generate]\<rparr>)"
proof -
  let ?env1 = "env\<lparr>time_reads := Suc (time_reads env)\<rparr>"
  let ?st = "time_readings env (time_reads env)"
  let ?envA = "?env1\<lparr>remote_calls := Suc (remote_calls env), events := events env @ [Generate]\<rparr>"
  let ?envB = "time_sleep ?envA 1"
  let ?envC = "?envB\<lparr>remote_calls := Suc (remote_calls ?envB), events := events ?envB @ [Generate]\<rparr>"
  let ?envD = "time_sleep ?envC 2"
  have a: "try_generate self ?env1 full_prompt ?st max_tokens temperature = (Inl e0, self, ?envA)"
    using try_generate_raises [of ?env1 full_prompt max_tokens temperature e0 self ?st] assms(3)
    by simp
  have b: "try_generate self ?envB full_prompt ?st max_tokens temperature = (Inl e1, self, ?envC)"
    using try_generate_raises [of ?envB full_prompt max_tokens temperature e1 self ?st] assms(4)
    by (simp add: time_sleep_def)
  have c: "try_generate self ?envD full_prompt ?st max_tokens temperature =
             (Inl e2, self, ?envD\<lparr>remote_calls := Suc (remote_calls ?envD),
                                 events := events ?envD @ [Generate]\<rparr>)"
    using try_generate_raises [of ?envD full_prompt max_tokens temperature e2 self ?st] assms(5)
    by (simp add: time_sleep_def)
  have "chat_attempts self ?env1 full_prompt ?st max_tokens temperature 3 [0, 1, 2] =
          (format_error self ''Vertex AI request failed'' (str_exn e2) (Some get_troubleshooting_steps),
           self, ?envD\<lparr>remote_calls := Suc (remote_calls ?envD), events := events ?envD @ [Generate]\<rparr>)"
    using a b c by simp
  then show ?thesis
    using assms(1,2)
    by (simp add: chat_def time_time_def py_range_def upt_rec time_sleep_def format_error_def
        get_troubleshooting_steps_def)
qed

theorem chat_retry_backoff_witness:
  "chat (\<lambda>v. []) example_gateway env_always_failing ''hello'' None None 4096 (float_literal 7 10) 3 =
     ([U274C] @ '' **Vertex AI request failed**\<newline>\<newline>**Details:** 503 unavailable\<newline>''
      @ ''\<newline>**Troubleshooting:**\<newline>''
      @ ''\<newline>1. Verify GCP_PROJECT_ID environment variable is set correctly''
      @ ''\<newline>2. Ensure Claude is enabled in Vertex AI Model Garden''
      @ ''\<newline>3. Check service account has Vertex AI User role''
      @ ''\<newline>4. Verify the model name is correct for your region''
      @ ''\<newline>5. Check GCP quotas and billing''
      @ ''\<newline>6. Review Cloud Logging for detailed error messages\<newline>''
      @ ''\<newline>''
      @ ''\<newline>**Configuration:**\<newline>- Project ID: valhalla''
      @ ''\<newline>- Region: us-central1''
      @ ''\<newline>- Model: claude-3-5-sonnet@20240620''
      @ ''\<newline>\<newline>**Need Help?**\<newline>Check the deployment documentation or run the diagnostic script.\<newline>'',
      example_gateway,
      env_always_failing\<lparr>remote_calls := 3, time_reads := 1,
          events := [Generate, Sleep 1, Generate, Sleep 2, Generate]\<rparr>)"
proof -
  have m: "model example_gateway = Some (GenerativeModel ''claude-3-5-sonnet@20240620'')"
    by (simp add: example_gateway_def)
  have f: "\<And>n p. generate_content env_always_failing n p 4096 (float_literal 7 10)
             = Inl (Exception ''503 unavailable'')"
    by (simp add: env_always_failing_def)
  show ?thesis
    using chat_retry_backoff [OF m build_prompt_no_history f f f, of "\<lambda>v. []" "''hello''" None]
    by (simp add: env_always_failing_def example_gateway_def)
qed

subsection \<open>Cost estimate\<close>

text \<open>
  C7, as stated, fails: for a prompt of 4000 characters and a response of 2000 characters
  the recorded cost is the double \<open>3026418949592973 / 2 ^ 58\<close> (printed
  \<open>0.010499999999999999\<close>). It is neither the double nearest to \<open>0.0105\<close>, which is
  \<open>6052837899185947 / 2 ^ 59\<close>, nor the rational \<open>21 / 2000\<close>.
\<close>

theorem cost_4000_2000_counterexample:
  "last_request_cost (calculate_cost example_gateway (replicate 4000 (CHR ''a''))
       (replicate 2000 (CHR ''b''))) \<noteq> float_literal 105 10000
   \<and> double_value (last_request_cost (calculate_cost example_gateway (replicate 4000 (CHR ''a''))
       (replicate 2000 (CHR ''b'')))) \<noteq> 21 / 2000"
  by (simp add: calculate_cost_def PRICING_input_def PRICING_output_def double_eval)

text \<open>
  C7, amended. After a successful \<open>chat\<close> (the prompt builds, the first \<open>k\<close> attempts fail,
  attempt \<open>k < retry_count\<close> answers) \<open>last_request_cost\<close> is
  \<open>((len(prompt) / 4) / 1000) * 0.003 + ((len(response) / 4) / 1000) * 0.015\<close> evaluated in
  double precision, each operation rounded to nearest; it is added, in double precision, to
  \<open>total_cost\<close>, and \<open>total_requests\<close> grows by one. For 4000 and 2000 characters the cost
  is the double \<open>3026418949592973 / 2 ^ 58\<close>, less than \<open>2 ^ - 59\<close> away from \<open>0.0105\<close>.
\<close>

theorem chat_success_cost:
  assumes "model self = Some m"
    and "build_prompt py_str user_message context history = Inr full_prompt"
    and "k < nat retry_count"
    and "\<forall>i<k. \<forall>a. generate_content env (remote_calls env + i) full_prompt max_tokens temperature
                    \<noteq> Inr (Response (Inr a))"
    and "generate_content env (remote_calls env + k) full_prompt max_tokens temperature
           = Inr (Response (Inr response))"
    and "chat py_str self env user_message context history max_tokens temperature retry_count
           = (r, self', env')"
  shows "r = response
    \<and> last_request_cost self' =
        fl_add (fl_mul (fl_div (int_truediv (int (length full_prompt)) 4) (float_of_int 1000))
                       (float_literal 3 1000))
               (fl_mul (fl_div (int_truediv (int (length response)) 4) (float_of_int 1000))
                       (float_literal 15 1000))
    \<and> total_cost self' = fl_add (total_cost self) (last_request_cost self')
    \<and> total_requests self' = total_requests self + 1
    \<and> (length full_prompt = 4000 \<and> length response = 2000 \<longrightarrow>
         last_request_cost self' = Double 3026418949592973 (- 58)
         \<and> \<bar>double_value (last_request_cost self') - 21 / 2000\<bar> < 1 / 2 ^ 59)"
proof -
  let ?env1 = "env\<lparr>time_reads := Suc (time_reads env)\<rparr>"
  let ?st = "time_readings env (time_reads env)"
  have 1: "k < length (py_range retry_count)"
    using assms(3) by (simp add: py_range_def)
  have 2: "\<forall>i<k. py_range retry_count ! i < retry_count - 1"
    using assms(3) by (auto simp: py_range_def)
  have 3: "\<forall>i<k. \<forall>a. generate_content ?env1 (remote_calls ?env1 + i) full_prompt max_tokens temperature
                    \<noteq> Inr (Response (Inr a))"
    using assms(4) by simp
  have 4: "generate_content ?env1 (remote_calls ?env1 + k) full_prompt max_tokens temperature
             = Inr (Response (Inr response))"
    using assms(5) by simp
  from chat_attempts_success [OF 1 2 3 4, of self ?st] obtain self2 env2 where
    ca: "chat_attempts self ?env1 full_prompt ?st max_tokens temperature retry_count (py_range retry_count)
          = (response, self2, env2)"
    and c2: "last_request_cost self2 =
        fl_add (fl_mul (fl_div (int_truediv (int (length full_prompt)) 4) (float_of_int 1000)) PRICING_input)
               (fl_mul (fl_div (int_truediv (int (length response)) 4) (float_of_int 1000)) PRICING_output)"
    and t2: "total_cost self2 = fl_add (total_cost self) (last_request_cost self2)"
    and n2: "total_requests self2 = total_requests self + 1"
    by blast
  from ca assms(1,2,6) have r: "r = response" and s: "self' = self2"
    by (auto simp add: chat_def time_time_def)
  have c: "last_request_cost self' =
        fl_add (fl_mul (fl_div (int_truediv (int (length full_prompt)) 4) (float_of_int 1000))
                       (float_literal 3 1000))
               (fl_mul (fl_div (int_truediv (int (length response)) 4) (float_of_int 1000))
                       (float_literal 15 1000))"
    using c2 by (simp add: s PRICING_input_def PRICING_output_def)
  have t: "total_cost self' = fl_add (total_cost self) (last_request_cost self')"
    using t2 by (simp add: s)
  have n: "total_requests self' = total_requests self + 1"
    using n2 by (simp add: s)
  have v: "length full_prompt = 4000 \<and> length response = 2000 \<longrightarrow>
         last_request_cost self' = Double 3026418949592973 (- 58)
         \<and> \<bar>double_value (last_request_cost self') - 21 / 2000\<bar> < 1 / 2 ^ 59"
  proof
    assume "length full_prompt = 4000 \<and> length response = 2000"
    then have "last_request_cost self' = Double 3026418949592973 (- 58)"
      unfolding c by (simp add: double_eval)
    then show "last_request_cost self' = Double 3026418949592973 (- 58)
         \<and> \<bar>double_value (last_request_cost self') - 21 / 2000\<bar> < 1 / 2 ^ 59"
      by simp
  qed
  from r c t n v show ?thesis by blast
qed

theorem chat_success_cost_witness:
  "fst (chat (\<lambda>v. []) example_gateway env_failing_once ''hello'' None None 4096
          (float_literal 7 10) 3) = ''OK''
   \<and> total_requests (fst (snd (chat (\<lambda>v. []) example_gateway env_failing_once ''hello'' None None
          4096 (float_literal 7 10) 3))) = 1"
proof -
  let ?c = "chat (\<lambda>v. []) example_gateway env_failing_once ''hello'' None None 4096
          (float_literal 7 10) 3"
  have m: "model example_gateway = Some (GenerativeModel ''claude-3-5-sonnet@20240620'')"
    by (simp add: example_gateway_def)
  have k: "(1::nat) < nat 3" by simp
  have f: "\<forall>i<1::nat. \<forall>a. generate_content env_failing_once (remote_calls env_failing_once + i) p
             4096 (float_literal 7 10) \<noteq> Inr (Response (Inr a))" for p
    by (simp add: env_failing_once_def)
  have s: "generate_content env_failing_once (remote_calls env_failing_once + 1) p
             4096 (float_literal 7 10) = Inr (Response (Inr ''OK''))" for p
    by (simp add: env_failing_once_def)
  have c: "?c = (fst ?c, fst (snd ?c), snd (snd ?c))" by simp
  show ?thesis
    using chat_success_cost [OF m build_prompt_no_history k f s c]
    by (simp add: example_gateway_def)
qed

subsection \<open>Resetting the statistics\<close>

text \<open>
  C9, as stated, fails: \<open>reset_stats\<close> also sets \<open>last_request_cost\<close> to \<open>0.0\<close>. A gateway
  whose last request cost \<open>3026418949592973 / 2 ^ 58\<close> dollars does not keep that figure.
\<close>

theorem reset_stats_last_cost_counterexample:
  "last_request_cost (reset_stats (example_gateway\<lparr>last_request_cost := Double 3026418949592973 (- 58)\<rparr>))
     \<noteq> last_request_cost (example_gateway\<lparr>last_request_cost := Double 3026418949592973 (- 58)\<rparr>)"
  by (simp add: reset_stats_def)

text \<open>
  C9, amended. \<open>reset_stats\<close> zeroes \<open>total_requests\<close>, \<open>total_cost\<close> and \<open>last_request_cost\<close>
  and changes nothing else: \<open>last_response_time\<close> and the configuration fields keep their
  values.
\<close>

theorem reset_stats_effect:
  "total_requests (reset_stats self) = 0
   \<and> total_cost (reset_stats self) = Double 0 0
   \<and> last_request_cost (reset_stats self) = Double 0 0
   \<and> last_response_time (reset_stats self) = last_response_time self
   \<and> project_id (reset_stats self) = project_id self
   \<and> location (reset_stats self) = location self
   \<and> model_name (reset_stats self) = model_name self
   \<and> model (reset_stats self) = model self
   \<and> vertex_claude_v2.more (reset_stats self) = vertex_claude_v2.more self"
  by (simp add: reset_stats_def)

subsection \<open>The prompt\<close>

lemma foldl_context_line:
  "foldl (context_line py_str) acc items =
     acc @ concat (map (\<lambda>kv. ''- '' @ fst kv @ '': '' @ py_str (snd kv) @ ''\<newline>'')
               (filter (\<lambda>kv. fst kv \<noteq> ''created_at'' \<and> fst kv \<noteq> ''last_updated'') items))"
  by (induction items arbitrary: acc) (auto simp add: context_line_def)

lemma add_history_rendered:
  assumes "\<forall>msg\<in>set msgs. map_of msg ''role'' \<noteq> None \<and> map_of msg ''content'' \<noteq> None"
  shows "add_history acc msgs = Inr (acc @ concat (map rendered_message msgs))"
  using assms
  by (induction msgs arbitrary: acc) (auto simp add: getitem_def rendered_message_def)

text \<open>The prompt builds whenever each of the history messages used has a role and a content.\<close>

lemma build_prompt_returns:
  assumes "\<forall>msg\<in>set (last10 history). map_of msg ''role'' \<noteq> None \<and> map_of msg ''content'' \<noteq> None"
  shows "\<exists>full_prompt. build_prompt py_str user_message context (Some history) = Inr full_prompt"
  by (simp add: build_prompt_def Let_def add_history_rendered [OF assms])

lemma upper_user: "upper ''user'' = ''USER''"
  by code_simp

lemma upper_assistant: "upper ''assistant'' = ''ASSISTANT''"
  by code_simp

text \<open>
  C6, as stated, fails. For a context with the fields \<open>name\<close>, \<open>created_at\<close> and
  \<open>updated_at\<close> and a history of fifteen messages, the prompt builds, but it does not begin
  with the fixed preamble (mission facts, capabilities, communication-style rules): the
  context lines stand before the communication-style rules, which are what precedes the
  history. The line of the timestamp field \<open>updated_at\<close> is among the context lines.
\<close>

theorem build_prompt_layout_counterexample:
  "\<not> isl (build_prompt example_py_str ''hi'' (Some example_context) (Some fifteen_messages))
   \<and> \<not> prefix (base_prompt @ communication_style)
         (projr (build_prompt example_py_str ''hi'' (Some example_context) (Some fifteen_messages)))
   \<and> projr (build_prompt example_py_str ''hi'' (Some example_context) (Some fifteen_messages)) =
       base_prompt
       @ ''\<newline>\<newline>CURRENT PROJECT CONTEXT:\<newline>''
       @ ''- name: X\<newline>''
       @ ''- updated_at: 2025-10-17 00:00:00+00:00\<newline>''
       @ communication_style
       @ ''\<newline>\<newline>''
       @ ''USER: m6\<newline>\<newline>ASSISTANT: m7\<newline>\<newline>USER: m8\<newline>\<newline>ASSISTANT: m9\<newline>\<newline>''
       @ ''USER: m10\<newline>\<newline>ASSISTANT: m11\<newline>\<newline>USER: m12\<newline>\<newline>ASSISTANT: m13\<newline>\<newline>''
       @ ''USER: m14\<newline>\<newline>ASSISTANT: m15\<newline>\<newline>''
       @ ''USER: hi\<newline>\<newline>ASSISTANT:''"
proof -
  have p: "build_prompt example_py_str ''hi'' (Some example_context) (Some fifteen_messages) =
       Inr (base_prompt
       @ ''\<newline>\<newline>CURRENT PROJECT CONTEXT:\<newline>''
       @ ''- name: X\<newline>''
       @ ''- updated_at: 2025-10-17 00:00:00+00:00\<newline>''
       @ communication_style
       @ ''\<newline>\<newline>''
       @ ''USER: m6\<newline>\<newline>ASSISTANT: m7\<newline>\<newline>USER: m8\<newline>\<newline>ASSISTANT: m9\<newline>\<newline>''
       @ ''USER: m10\<newline>\<newline>ASSISTANT: m11\<newline>\<newline>USER: m12\<newline>\<newline>ASSISTANT: m13\<newline>\<newline>''
       @ ''USER: m14\<newline>\<newline>ASSISTANT: m15\<newline>\<newline>''
       @ ''USER: hi\<newline>\<newline>ASSISTANT:'')"
    by (simp add: build_prompt_def build_system_prompt_def context_line_def example_context_def
        example_py_str_def fifteen_messages_def last10_def user_msg_def assistant_msg_def
        getitem_def upper_user upper_assistant)
  have q: "\<not> prefix communication_style (''\<newline>\<newline>CURRENT PROJECT CONTEXT:\<newline>'' @ rest)" for rest
    by (simp add: communication_style_def)
  show ?thesis
    unfolding p using q by simp
qed

text \<open>
  C6, amended. For every history of more than ten messages, each of whose last ten has a
  role and a content, and every context without a field \<open>updated_at\<close>, the prompt is: the
  mission facts and capabilities; then, for a non-empty context, the heading
  \<open>CURRENT PROJECT CONTEXT:\<close> and one line \<open>- key: value\<close> for each field that is not a
  timestamp field, in the context's order; then the communication-style rules and a blank
  line; then exactly the last ten history messages in their order, each as
  \<open><ROLE>: <content>\<close> followed by a blank line; then \<open>USER:\<close> with the new message, a
  blank line, and the marker \<open>ASSISTANT:\<close>.
\<close>

theorem build_prompt_layout:
  assumes "10 < length history"
    and "\<forall>msg\<in>set (last10 history). map_of msg ''role'' \<noteq> None \<and> map_of msg ''content'' \<noteq> None"
    and "\<forall>items. context = Some items \<longrightarrow> ''updated_at'' \<notin> fst ` set items"
  shows "build_prompt py_str user_message context (Some history) =
           Inr (base_prompt @ context_block py_str context @ communication_style
                @ ''\<newline>\<newline>''
                @ concat (map rendered_message (last10 history))
                @ ''USER: '' @ user_message @ ''\<newline>\<newline>ASSISTANT:'')
     \<and> length (last10 history) = 10
     \<and> (\<exists>older. history = older @ last10 history)"
proof -
  have f: "filter (\<lambda>kv. fst kv \<noteq> ''created_at'' \<and> fst kv \<noteq> ''last_updated'') items
           = filter (\<lambda>kv. fst kv \<notin> set timestamp_fields) items"
    if "context = Some items" for items
  proof (rule filter_cong [OF refl])
    fix kv assume "kv \<in> set items"
    with assms(3) that have "fst kv \<noteq> ''updated_at''" by force
    then show "(fst kv \<noteq> ''created_at'' \<and> fst kv \<noteq> ''last_updated'') = (fst kv \<notin> set timestamp_fields)"
      by (auto simp add: timestamp_fields_def)
  qed
  have s: "build_system_prompt py_str context
             = base_prompt @ context_block py_str context @ communication_style"
  proof (cases "context")
    case None
    then show ?thesis by (simp add: build_system_prompt_def context_block_def)
  next
    case (Some items)
    with f [OF Some] show ?thesis
      by (simp add: build_system_prompt_def context_block_def context_lines_def foldl_context_line)
  qed
  have h: "history \<noteq> []" using assms(1) by auto
  have a: "build_prompt py_str user_message context (Some history) =
           Inr (base_prompt @ context_block py_str context @ communication_style
                @ ''\<newline>\<newline>''
                @ concat (map rendered_message (last10 history))
                @ ''USER: '' @ user_message @ ''\<newline>\<newline>ASSISTANT:'')"
    using h by (simp add: build_prompt_def s add_history_rendered [OF assms(2)])
  have b: "length (last10 history) = 10" using assms(1) by (simp add: last10_def)
  have c: "\<exists>older. history = older @ last10 history"
    by (intro exI [of _ "take (length history - 10) history"]) (simp add: last10_def)
  from a b c show ?thesis by blast
qed

theorem build_prompt_layout_witness:
  "build_prompt example_py_str ''hi'' (Some [(''name'', PStr ''X''), (''created_at'', PTimestamp 1)])
       (Some fifteen_messages) =
     Inr (base_prompt
       @ ''\<newline>\<newline>CURRENT PROJECT CONTEXT:\<newline>''
       @ ''- name: X\<newline>''
       @ communication_style
       @ ''\<newline>\<newline>''
       @ ''USER: m6\<newline>\<newline>ASSISTANT: m7\<newline>\<newline>USER: m8\<newline>\<newline>ASSISTANT: m9\<newline>\<newline>''
       @ ''USER: m10\<newline>\<newline>ASSISTANT: m11\<newline>\<newline>USER: m12\<newline>\<newline>ASSISTANT: m13\<newline>\<newline>''
       @ ''USER: m14\<newline>\<newline>ASSISTANT: m15\<newline>\<newline>''
       @ ''USER: hi\<newline>\<newline>ASSISTANT:'')"
proof -
  have 1: "10 < length fifteen_messages" by (simp add: fifteen_messages_def)
  have 2: "\<forall>msg\<in>set (last10 fifteen_messages).
             map_of msg ''role'' \<noteq> None \<and> map_of msg ''content'' \<noteq> None"
    by (simp add: fifteen_messages_def last10_def user_msg_def assistant_msg_def)
  have 3: "\<forall>items. Some [(''name'', PStr ''X''), (''created_at'', PTimestamp 1)] = Some items \<longrightarrow>
             ''updated_at'' \<notin> fst ` set items"
    by simp
  from build_prompt_layout [OF 1 2 3, of example_py_str "''hi''"] show ?thesis
    by (simp add: context_block_def context_lines_def timestamp_fields_def example_py_str_def
        rendered_message_def fifteen_messages_def last10_def user_msg_def assistant_msg_def
        upper_user upper_assistant)
qed

section \<open>Properties of the Persistence Gateway\<close>

subsection \<open>Reading a project\<close>

lemma fetch_hit:
  assumes "db self = Some fs" "faults fs (accesses fs) = None" "projects fs (document_id name) = Some d"
  shows "fetch_project_context self clk name =
     (d, self\<lparr>db := Some (fs\<lparr>accesses := Suc (accesses fs)\<rparr>),
              cache := (cache self)(''project_'' @ name \<mapsto> (d, now_readings clk (now_reads clk)))\<rparr>,
      clk\<lparr>now_reads := Suc (now_reads clk)\<rparr>)"
  using assms by (simp add: fetch_project_context_def projects_get_def datetime_now_def Let_def)

lemma fetch_fallback:
  assumes "case db self of None \<Rightarrow> True
           | Some fs \<Rightarrow> faults fs (accesses fs) \<noteq> None \<or> projects fs (document_id name) = None"
  shows "fetch_project_context self clk name =
     (get_default_project_context name,
      self\<lparr>db := map_option (\<lambda>fs. fs\<lparr>accesses := Suc (accesses fs)\<rparr>) (db self)\<rparr>, clk)"
  using assms
  by (auto simp add: fetch_project_context_def projects_get_def Let_def split: option.splits)

lemma fetch_accesses:
  assumes "db self = Some fs" "fetch_project_context self clk name = (r, self', clk')"
  shows "\<exists>fs'. db self' = Some fs' \<and> accesses fs' = Suc (accesses fs)"
  using assms
  by (auto simp add: fetch_project_context_def projects_get_def Let_def datetime_now_def split: option.splits)

lemma fetch_cache:
  assumes "fetch_project_context self clk name = (r, self', clk')"
  shows "cache self' = cache self \<or>
     (\<exists>fs d t. db self = Some fs \<and> faults fs (accesses fs) = None
        \<and> projects fs (document_id name) = Some d \<and> r = d
        \<and> cache self' = (cache self)(''project_'' @ name \<mapsto> (d, t)))"
  using assms
  by (auto simp add: fetch_project_context_def projects_get_def Let_def datetime_now_def split: option.splits)

lemma get_cached:
  assumes "cache self (''project_'' @ name) = Some (d, t)"
    and "now_readings clk (now_reads clk) - t < timedelta_seconds (cache_ttl self)"
  shows "get_project_context self clk name = (d, self, clk\<lparr>now_reads := Suc (now_reads clk)\<rparr>)"
  using assms by (simp add: get_project_context_def datetime_now_def Let_def)

lemma get_expired:
  assumes "cache self (''project_'' @ name) = Some (d, t)"
    and "\<not> now_readings clk (now_reads clk) - t < timedelta_seconds (cache_ttl self)"
  shows "get_project_context self clk name =
           fetch_project_context self (clk\<lparr>now_reads := Suc (now_reads clk)\<rparr>) name"
  using assms by (simp add: get_project_context_def datetime_now_def Let_def)

lemma get_absent:
  assumes "cache self (''project_'' @ name) = None"
  shows "get_project_context self clk name = fetch_project_context self clk name"
  using assms by (simp add: get_project_context_def Let_def)

text \<open>A call that the cache does not serve goes on to the store.\<close>

lemma get_not_served:
  assumes "case cache self (''project_'' @ name) of None \<Rightarrow> True
           | Some (d, t) \<Rightarrow> \<not> now_readings clk (now_reads clk) - t < timedelta_seconds (cache_ttl self)"
  shows "\<exists>clk1. get_project_context self clk name = fetch_project_context self clk1 name
           \<and> now_readings clk1 = now_readings clk \<and> now_reads clk \<le> now_reads clk1
           \<and> now_reads clk1 \<le> Suc (now_reads clk)"
proof (cases "cache self (''project_'' @ name)")
  case None
  then show ?thesis by (auto simp: get_absent)
next
  case (Some p)
  obtain d t where "p = (d, t)" by (cases p)
  with Some assms show ?thesis
    by (intro exI[of _ "clk\<lparr>now_reads := Suc (now_reads clk)\<rparr>"]) (simp add: get_expired)
qed


lemma document_id_haven: "document_id ''HAVEN Platform'' = ''haven_platform''"
  by code_simp

lemma document_id_ghost: "document_id ''Ghost'' = ''ghost''"
  by code_simp

subsection \<open>What the calls keep\<close>

lemma fetch_project_context_keeps:
  "cache_ttl (fst (snd (fetch_project_context self clk name))) = cache_ttl self
   \<and> map_option faults (db (fst (snd (fetch_project_context self clk name)))) = map_option faults (db self)"
  by (auto simp add: fetch_project_context_def projects_get_def datetime_now_def Let_def
      split: option.splits)

lemma get_project_context_keeps:
  "cache_ttl (fst (snd (get_project_context self clk name))) = cache_ttl self
   \<and> map_option faults (db (fst (snd (get_project_context self clk name)))) = map_option faults (db self)"
  using fetch_project_context_keeps
  by (auto simp add: get_project_context_def datetime_now_def Let_def split: option.splits)

lemma save_conversation_keeps:
  "cache_ttl (snd (save_conversation self project msgs)) = cache_ttl self
   \<and> cache (snd (save_conversation self project msgs)) = cache self
   \<and> map_option faults (db (snd (save_conversation self project msgs))) = map_option faults (db self)"
  by (auto simp add: save_conversation_def conversations_set_def save_conversation_history_def
      conversation_history_add_def Let_def split: option.splits)

lemma update_project_status_keeps:
  "cache_ttl (snd (update_project_status self project status updates)) = cache_ttl self
   \<and> map_option faults (db (snd (update_project_status self project status updates)))
       = map_option faults (db self)"
  by (auto simp add: update_project_status_def projects_update_def Let_def split: option.splits)

lemma after_call_keeps:
  "cache_ttl (fst (after_call self clk c)) = cache_ttl self
   \<and> map_option faults (db (fst (after_call self clk c))) = map_option faults (db self)"
proof (cases c)
  case (GetProjectContext name)
  then show ?thesis using get_project_context_keeps [of self clk name] by simp
next
  case (SaveConversation project msgs)
  then show ?thesis using save_conversation_keeps [of self project msgs] by simp
next
  case (UpdateProjectStatus project status updates)
  then show ?thesis using update_project_status_keeps [of self project status updates] by simp
next
  case ClearCache
  then show ?thesis by (simp add: clear_cache_def)
next
  case OtherAccess
  then show ?thesis by (cases "db self") simp_all
qed

lemma after_calls_keeps:
  "cache_ttl (fst (after_calls self clk cs)) = cache_ttl self
   \<and> map_option faults (db (fst (after_calls self clk cs))) = map_option faults (db self)"
proof (induction cs arbitrary: self clk)
  case Nil
  show ?case by simp
next
  case (Cons c cs)
  obtain self1 clk1 where a: "after_call self clk c = (self1, clk1)" by (cases "after_call self clk c")
  with after_call_keeps [of self clk c] Cons.IH [of self1 clk1] show ?case by simp
qed


lemma constructor_cache: "cache (ContextManagerV2 env_project_id client) = Map.empty"
  by (simp add: ContextManagerV2_def Let_def split: option.splits sum.splits)


subsection \<open>The constructor\<close>

lemma initialize_projects_faults: "faults (initialize_projects fs ps) = faults fs"
proof (induction ps arbitrary: fs)
  case Nil
  show ?case by simp
next
  case (Cons p ps)
  obtain doc_id project_data where p: "p = (doc_id, project_data)" by (cases p)
  show ?case
    by (simp add: p projects_get_def projects_set_def Let_def Cons.IH split: option.splits)
qed

lemma initialize_projects_keeps_project:
  "projects fs k = Some d \<Longrightarrow> projects (initialize_projects fs ps) k = Some d"
proof (induction ps arbitrary: fs)
  case Nil
  then show ?case by simp
next
  case (Cons p ps)
  obtain doc_id project_data where p: "p = (doc_id, project_data)" by (cases p)
  show ?case
  proof (cases "faults fs (accesses fs)")
    case (Some e)
    have "projects (fs\<lparr>accesses := Suc (accesses fs)\<rparr>) k = Some d" using Cons.prems by simp
    from Cons.IH [OF this] Some show ?thesis
      by (simp add: p projects_get_def Let_def)
  next
    case None
    show ?thesis
    proof (cases "projects fs doc_id")
      case (Some doc)
      have "projects (fs\<lparr>accesses := Suc (accesses fs)\<rparr>) k = Some d" using Cons.prems by simp
      from Cons.IH [OF this] Some \<open>faults fs (accesses fs) = None\<close> show ?thesis
        by (simp add: p projects_get_def Let_def)
    next
      case absent: None
      then have ne: "doc_id \<noteq> k" using Cons.prems by auto
      let ?fs1 = "fs\<lparr>accesses := Suc (accesses fs)\<rparr>"
      let ?data = "dict_set (dict_set project_data ''created_at'' SERVER_TIMESTAMP)
                     ''updated_at'' SERVER_TIMESTAMP"
      have k1: "projects (snd (projects_set ?fs1 doc_id ?data)) k = Some d"
        using Cons.prems ne by (simp add: projects_set_def Let_def split: option.splits)
      from Cons.IH [OF k1] absent \<open>faults fs (accesses fs) = None\<close> show ?thesis
        by (auto simp add: p projects_get_def Let_def split: prod.splits sum.splits)
    qed
  qed
qed

lemma initialize_projects_keeps:
  "faults (initialize_projects fs ps) = faults fs
   \<and> (projects fs k = Some d \<longrightarrow> projects (initialize_projects fs ps) k = Some d)"
  using initialize_projects_faults initialize_projects_keeps_project by blast

text \<open>The constructor never overwrites a project document that exists.\<close>

lemma initialize_mission_context_keeps:
  "faults (initialize_mission_context fs) = faults fs
   \<and> (projects fs k = Some d \<longrightarrow> projects (initialize_mission_context fs) k = Some d)"
  using initialize_projects_keeps
  by (auto simp add: initialize_mission_context_def mission_get_def mission_set_def Let_def
      split: option.splits)

lemma constructor_store:
  "map_option faults (db (ContextManagerV2 env_project_id client)) = Some f \<Longrightarrow>
     \<exists>fs. client = Inr fs \<and> faults fs = f"
  using initialize_mission_context_keeps
  by (auto simp add: ContextManagerV2_def Let_def split: option.splits sum.splits if_splits)

subsection \<open>A store that never answers\<close>

lemma get_project_context_never_answered:
  assumes "\<forall>f. map_option faults (db self) = Some f \<longrightarrow> (\<forall>n. f n \<noteq> None)"
    and "cache self = Map.empty"
  shows "get_project_context self clk name =
           (get_default_project_context name,
            self\<lparr>db := map_option (\<lambda>fs. fs\<lparr>accesses := Suc (accesses fs)\<rparr>) (db self)\<rparr>, clk)"
proof -
  have "case db self of None \<Rightarrow> True
        | Some fs \<Rightarrow> faults fs (accesses fs) \<noteq> None \<or> projects fs (document_id name) = None"
    using assms(1) by (auto split: option.splits)
  from fetch_fallback [OF this, of clk] show ?thesis
    using assms(2) by (simp add: get_absent)
qed

lemma after_call_never_answered:
  assumes "\<forall>f. map_option faults (db self) = Some f \<longrightarrow> (\<forall>n. f n \<noteq> None)"
    and "cache self = Map.empty"
  shows "cache (fst (after_call self clk c)) = Map.empty"
proof (cases c)
  case (GetProjectContext name)
  then show ?thesis
    using get_project_context_never_answered [OF assms, of clk name] assms(2) by simp
next
  case (SaveConversation project msgs)
  then show ?thesis using save_conversation_keeps [of self project msgs] assms(2) by simp
next
  case (UpdateProjectStatus project status updates)
  then show ?thesis
    using assms(2)
    by (auto simp add: update_project_status_def Let_def split: option.splits prod.splits sum.splits)
next
  case ClearCache
  then show ?thesis by (simp add: clear_cache_def)
next
  case OtherAccess
  then show ?thesis using assms(2) by simp
qed

lemma after_calls_never_answered:
  assumes "\<forall>f. map_option faults (db self) = Some f \<longrightarrow> (\<forall>n. f n \<noteq> None)"
    and "cache self = Map.empty"
  shows "cache (fst (after_calls self clk cs)) = Map.empty"
  using assms
proof (induction cs arbitrary: self clk)
  case Nil
  then show ?case by simp
next
  case (Cons c cs)
  obtain self1 clk1 where a: "after_call self clk c = (self1, clk1)" by (cases "after_call self clk c")
  have 1: "\<forall>f. map_option faults (db self1) = Some f \<longrightarrow> (\<forall>n. f n \<noteq> None)"
    using after_call_keeps [of self clk c] a Cons.prems(1) by simp
  have 2: "cache self1 = Map.empty"
    using after_call_never_answered [OF Cons.prems, of clk c] a by simp
  from Cons.IH [OF 1 2, of clk1] a show ?case by simp
qed

lemma default_result:
  assumes "get_project_context self clk X = (get_default_project_context X, self', clk')"
    and "cache self' = cache self"
  shows "fst (get_project_context self clk X) = get_default_project_context X
     \<and> map_of (fst (get_project_context self clk X)) ''name'' = Some (PStr X)
     \<and> map_of (fst (get_project_context self clk X)) ''status'' = Some (PStr ''Unknown'')
     \<and> map_of (fst (get_project_context self clk X)) ''description''
          = Some (PStr ''Context unavailable - Firestore not connected'')
     \<and> map_of (fst (get_project_context self clk X)) ''offline_mode'' = Some (PBool True)
     \<and> cache (fst (snd (get_project_context self clk X))) = cache self"
  using assms by (simp add: get_default_project_context_def)

subsection \<open>The cache and the fallback\<close>



lemma going_down_accesses: "accesses (initialize_mission_context store_going_down) = 7"
  by (simp add: initialize_mission_context_def mission_get_def mission_set_def default_projects_def
      projects_get_def projects_set_def store_going_down_def example_store_def Let_def)

lemma manager_gone_down_eq:
  "manager_gone_down =
     manager_going_down
       \<lparr>db := Some ((initialize_mission_context store_going_down)\<lparr>accesses := 8\<rparr>),
        cache := [''project_HAVEN Platform'' \<mapsto> (haven_platform, 0)]\<rparr>"
proof -
  let ?fs = "initialize_mission_context store_going_down"
  have 1: "db manager_going_down = Some ?fs"
    by (simp add: manager_going_down_def ContextManagerV2_def)
  have fa: "faults ?fs = faults store_going_down"
    using initialize_mission_context_keeps [of store_going_down] by simp
  have "faults ?fs 7 = None" unfolding fa by (simp add: store_going_down_def)
  then have 2: "faults ?fs (accesses ?fs) = None" by (simp add: going_down_accesses)
  have "projects store_going_down ''haven_platform'' = Some haven_platform"
    by (simp add: store_going_down_def example_store_def)
  then have 3: "projects ?fs (document_id ''HAVEN Platform'') = Some haven_platform"
    using initialize_mission_context_keeps [of store_going_down "''haven_platform''" haven_platform]
    by (simp add: document_id_haven)
  have 4: "cache manager_going_down (''project_'' @ ''HAVEN Platform'') = None"
    by (simp add: manager_going_down_def ContextManagerV2_def)
  have 5: "cache manager_going_down = Map.empty"
    by (simp add: manager_going_down_def ContextManagerV2_def)
  show ?thesis
    unfolding manager_gone_down_def
    by (simp add: get_absent [OF 4] fetch_hit [OF 1 2 3] going_down_accesses 5 example_clock_def)
qed



text \<open>
  C5, as stated, fails. A gateway is made on a store that answers at first; it reads a
  project, which it caches; from then on every access to the store raises. Asked for the
  project one second later, the gateway returns the cached document, not the default
  context.
\<close>

theorem default_context_store_down_counterexample:
  "map_option (\<lambda>fs. faults fs (accesses fs)) (db manager_gone_down)
     = Some (Some (Exception ''503 unavailable''))
   \<and> fst (get_project_context manager_gone_down (example_clock\<lparr>now_reads := 1\<rparr>) ''HAVEN Platform'')
       = haven_platform
   \<and> fst (get_project_context manager_gone_down (example_clock\<lparr>now_reads := 1\<rparr>) ''HAVEN Platform'')
       \<noteq> get_default_project_context ''HAVEN Platform''"
proof -
  have fa: "faults (initialize_mission_context store_going_down) = faults store_going_down"
    using initialize_mission_context_keeps [of store_going_down] by simp
  have f: "map_option (\<lambda>fs. faults fs (accesses fs)) (db manager_gone_down)
     = Some (Some (Exception ''503 unavailable''))"
    by (simp add: manager_gone_down_eq fa) (simp add: store_going_down_def)
  have c: "cache manager_gone_down (''project_'' @ ''HAVEN Platform'') = Some (haven_platform, 0)"
    by (simp add: manager_gone_down_eq)
  have t: "now_readings (example_clock\<lparr>now_reads := 1\<rparr>) (now_reads (example_clock\<lparr>now_reads := 1\<rparr>)) - 0
             < timedelta_seconds (cache_ttl manager_gone_down)"
    by (simp add: manager_gone_down_eq manager_going_down_def ContextManagerV2_def
        example_clock_def timedelta_seconds_def)
  have g: "fst (get_project_context manager_gone_down (example_clock\<lparr>now_reads := 1\<rparr>) ''HAVEN Platform'')
       = haven_platform"
    using get_cached [OF c t] by simp
  have n: "haven_platform \<noteq> get_default_project_context ''HAVEN Platform''"
    by (simp add: haven_platform_def get_default_project_context_def)
  from f g n show ?thesis by simp
qed

text \<open>
  C5, amended. \<open>get_project_context\<close> for a name \<open>X\<close> returns the default context (name
  \<open>X\<close>, status \<open>Unknown\<close>, the description \<open>Context unavailable - Firestore not connected\<close>,
  the flag \<open>offline_mode\<close> set to \<open>True\<close>) and leaves the cache as it was, in each of two
  cases: the cache holds no unexpired entry for \<open>X\<close>, and the store is unreachable (\<open>db\<close>
  is \<open>None\<close>) or the access raises; or the gateway was made by its constructor on a store
  that is unreachable or raises at every access, whatever calls it has received since. The
  function is total and its result is a document: the handler of its \<open>try\<close> returns the
  default context.
\<close>

theorem default_context_on_store_failure:
  "((case cache self (''project_'' @ X) of None \<Rightarrow> True
     | Some (d, t) \<Rightarrow> \<not> now_readings clk (now_reads clk) - t < timedelta_seconds (cache_ttl self))
    \<and> (db self = None \<or> (\<exists>fs. db self = Some fs \<and> faults fs (accesses fs) \<noteq> None))
    \<or> self = fst (after_calls (ContextManagerV2 env_project_id client) clk0 cs)
      \<and> (\<forall>fs. client = Inr fs \<longrightarrow> (\<forall>n. faults fs n \<noteq> None)))
   \<longrightarrow>
     fst (get_project_context self clk X) = get_default_project_context X
     \<and> map_of (fst (get_project_context self clk X)) ''name'' = Some (PStr X)
     \<and> map_of (fst (get_project_context self clk X)) ''status'' = Some (PStr ''Unknown'')
     \<and> map_of (fst (get_project_context self clk X)) ''description''
          = Some (PStr ''Context unavailable - Firestore not connected'')
     \<and> map_of (fst (get_project_context self clk X)) ''offline_mode'' = Some (PBool True)
     \<and> cache (fst (snd (get_project_context self clk X))) = cache self"
proof (rule impI, erule disjE)
  assume a: "(case cache self (''project_'' @ X) of None \<Rightarrow> True
     | Some (d, t) \<Rightarrow> \<not> now_readings clk (now_reads clk) - t < timedelta_seconds (cache_ttl self))
    \<and> (db self = None \<or> (\<exists>fs. db self = Some fs \<and> faults fs (accesses fs) \<noteq> None))"
  from a have 1: "case cache self (''project_'' @ X) of None \<Rightarrow> True
       | Some (d, t) \<Rightarrow> \<not> now_readings clk (now_reads clk) - t < timedelta_seconds (cache_ttl self)"
    by (rule conjunct1)
  from a have 2: "db self = None \<or> (\<exists>fs. db self = Some fs \<and> faults fs (accesses fs) \<noteq> None)"
    by (rule conjunct2)
  from get_not_served [OF 1] obtain clk1 where
    g: "get_project_context self clk X = fetch_project_context self clk1 X" by blast
  have "case db self of None \<Rightarrow> True
           | Some fs \<Rightarrow> faults fs (accesses fs) \<noteq> None \<or> projects fs (document_id X) = None"
    using 2 by (auto split: option.splits)
  from fetch_fallback [OF this, of clk1] g
  have r: "get_project_context self clk X = (get_default_project_context X,
      self\<lparr>db := map_option (\<lambda>fs. fs\<lparr>accesses := Suc (accesses fs)\<rparr>) (db self)\<rparr>, clk1)"
    by simp
  show "fst (get_project_context self clk X) = get_default_project_context X
     \<and> map_of (fst (get_project_context self clk X)) ''name'' = Some (PStr X)
     \<and> map_of (fst (get_project_context self clk X)) ''status'' = Some (PStr ''Unknown'')
     \<and> map_of (fst (get_project_context self clk X)) ''description''
          = Some (PStr ''Context unavailable - Firestore not connected'')
     \<and> map_of (fst (get_project_context self clk X)) ''offline_mode'' = Some (PBool True)
     \<and> cache (fst (snd (get_project_context self clk X))) = cache self"
    by (rule default_result [OF r]) simp
next
  assume b: "self = fst (after_calls (ContextManagerV2 env_project_id client) clk0 cs)
      \<and> (\<forall>fs. client = Inr fs \<longrightarrow> (\<forall>n. faults fs n \<noteq> None))"
  from b have s: "self = fst (after_calls (ContextManagerV2 env_project_id client) clk0 cs)"
    by (rule conjunct1)
  from b have n: "\<forall>fs. client = Inr fs \<longrightarrow> (\<forall>n. faults fs n \<noteq> None)"
    by (rule conjunct2)
  let ?c = "ContextManagerV2 env_project_id client"
  have c1: "\<forall>f. map_option faults (db ?c) = Some f \<longrightarrow> (\<forall>n. f n \<noteq> None)"
  proof (intro allI impI)
    fix f n
    assume "map_option faults (db ?c) = Some f"
    from constructor_store [OF this] obtain fs where "client = Inr fs" and "faults fs = f" by blast
    with n show "f n \<noteq> None" by auto
  qed
  have e: "cache self = Map.empty"
    using after_calls_never_answered [OF c1 constructor_cache, of clk0 cs] s by simp
  have f: "\<forall>f. map_option faults (db self) = Some f \<longrightarrow> (\<forall>n. f n \<noteq> None)"
    using after_calls_keeps [of ?c clk0 cs] c1 s by simp
  have r: "get_project_context self clk X =
           (get_default_project_context X,
            self\<lparr>db := map_option (\<lambda>fs. fs\<lparr>accesses := Suc (accesses fs)\<rparr>) (db self)\<rparr>, clk)"
    by (rule get_project_context_never_answered [OF f e])
  show "fst (get_project_context self clk X) = get_default_project_context X
     \<and> map_of (fst (get_project_context self clk X)) ''name'' = Some (PStr X)
     \<and> map_of (fst (get_project_context self clk X)) ''status'' = Some (PStr ''Unknown'')
     \<and> map_of (fst (get_project_context self clk X)) ''description''
          = Some (PStr ''Context unavailable - Firestore not connected'')
     \<and> map_of (fst (get_project_context self clk X)) ''offline_mode'' = Some (PBool True)
     \<and> cache (fst (snd (get_project_context self clk X))) = cache self"
    by (rule default_result [OF r]) simp
qed

theorem default_context_on_store_failure_witness:
  "fst (get_project_context manager_store_down example_clock ''X'') =
     [(''name'', PStr ''X''), (''status'', PStr ''Unknown''),
      (''description'', PStr ''Context unavailable - Firestore not connected''),
      (''offline_mode'', PBool True)]
   \<and> fst (get_project_context manager_never_answered example_clock ''X'') =
     [(''name'', PStr ''X''), (''status'', PStr ''Unknown''),
      (''description'', PStr ''Context unavailable - Firestore not connected''),
      (''offline_mode'', PBool True)]"
proof -
  have 1: "(case cache manager_store_down (''project_'' @ ''X'') of None \<Rightarrow> True
           | Some (d, t) \<Rightarrow> \<not> now_readings example_clock (now_reads example_clock) - t
                                < timedelta_seconds (cache_ttl manager_store_down))
           \<and> (db manager_store_down = None \<or>
              (\<exists>fs. db manager_store_down = Some fs \<and> faults fs (accesses fs) \<noteq> None))"
    by (simp add: manager_store_down_def failing_store_def)
  have 2: "manager_never_answered =
             fst (after_calls (ContextManagerV2 (Some ''valhalla'') (Inr failing_store)) example_clock
                    [GetProjectContext ''X'', SaveConversation ''X'' five_messages])
           \<and> (\<forall>fs. (Inr failing_store :: exn + firestore) = Inr fs \<longrightarrow> (\<forall>n. faults fs n \<noteq> None))"
    by (simp add: manager_never_answered_def failing_store_def)
  from default_context_on_store_failure
         [where self = manager_store_down and X = "''X''" and clk = example_clock] 1
  have a: "fst (get_project_context manager_store_down example_clock ''X'')
             = get_default_project_context ''X''"
    by blast
  from default_context_on_store_failure
         [where self = manager_never_answered and X = "''X''" and clk = example_clock
            and env_project_id = "Some ''valhalla''" and client = "Inr failing_store"
            and ?clk0.0 = example_clock
            and cs = "[GetProjectContext ''X'', SaveConversation ''X'' five_messages]"] 2
  have b: "fst (get_project_context manager_never_answered example_clock ''X'')
             = get_default_project_context ''X''"
    by blast
  from a b show ?thesis by (simp add: get_default_project_context_def)
qed

text \<open>
  C10. A call of \<open>get_project_context\<close> either leaves the cache as it was or adds, under the
  key of the requested name, the document that a successful read of the store just
  returned. When the call falls back to the default context (the cache does not serve it,
  and the store is unreachable, raises, or has no such document) the cache is unchanged, and
  the next call for that name, at a clock reading that is not earlier, accesses the store
  again whenever there is a store. The other writers of the cache only remove entries:
  \<open>clear_cache\<close> empties it and \<open>update_project_status\<close> deletes at most one key.
\<close>

theorem cache_holds_store_hits_only:
  assumes "get_project_context self clk name = (r, self', clk')"
  shows "(cache self' = cache self \<or>
           (\<exists>fs d t. db self = Some fs \<and> faults fs (accesses fs) = None
              \<and> projects fs (document_id name) = Some d \<and> r = d
              \<and> cache self' = (cache self)(''project_'' @ name \<mapsto> (d, t))))
     \<and> ((case cache self (''project_'' @ name) of None \<Rightarrow> True
           | Some (d, t) \<Rightarrow> \<not> now_readings clk (now_reads clk) - t < timedelta_seconds (cache_ttl self))
          \<and> (case db self of None \<Rightarrow> True
              | Some fs \<Rightarrow> faults fs (accesses fs) \<noteq> None \<or> projects fs (document_id name) = None)
          \<longrightarrow> r = get_default_project_context name \<and> cache self' = cache self
              \<and> (\<forall>fs' r2 self2 clk2.
                    db self' = Some fs'
                    \<and> now_readings clk (now_reads clk) \<le> now_readings clk' (now_reads clk')
                    \<and> get_project_context self' clk' name = (r2, self2, clk2)
                    \<longrightarrow> (\<exists>fs2. db self2 = Some fs2 \<and> accesses fs2 = Suc (accesses fs'))))
     \<and> cache (clear_cache self) = Map.empty
     \<and> cache (snd (update_project_status self project status updates)) \<subseteq>\<^sub>m cache self"
proof -
  have A: "cache self' = cache self \<or>
           (\<exists>fs d t. db self = Some fs \<and> faults fs (accesses fs) = None
              \<and> projects fs (document_id name) = Some d \<and> r = d
              \<and> cache self' = (cache self)(''project_'' @ name \<mapsto> (d, t)))"
  proof (cases "cache self (''project_'' @ name)")
    case None
    with assms have "fetch_project_context self clk name = (r, self', clk')" by (simp add: get_absent)
    then show ?thesis by (rule fetch_cache)
  next
    case (Some p)
    obtain d t where p: "p = (d, t)" by (cases p)
    show ?thesis
    proof (cases "now_readings clk (now_reads clk) - t < timedelta_seconds (cache_ttl self)")
      case True
      with Some p assms show ?thesis by (simp add: get_cached)
    next
      case False
      with Some p assms
      have "fetch_project_context self (clk\<lparr>now_reads := Suc (now_reads clk)\<rparr>) name = (r, self', clk')"
        by (simp add: get_expired)
      then show ?thesis by (rule fetch_cache)
    qed
  qed
  have B: "(case cache self (''project_'' @ name) of None \<Rightarrow> True
           | Some (d, t) \<Rightarrow> \<not> now_readings clk (now_reads clk) - t < timedelta_seconds (cache_ttl self))
          \<and> (case db self of None \<Rightarrow> True
              | Some fs \<Rightarrow> faults fs (accesses fs) \<noteq> None \<or> projects fs (document_id name) = None)
          \<longrightarrow> r = get_default_project_context name \<and> cache self' = cache self
              \<and> (\<forall>fs' r2 self2 clk2.
                    db self' = Some fs'
                    \<and> now_readings clk (now_reads clk) \<le> now_readings clk' (now_reads clk')
                    \<and> get_project_context self' clk' name = (r2, self2, clk2)
                    \<longrightarrow> (\<exists>fs2. db self2 = Some fs2 \<and> accesses fs2 = Suc (accesses fs')))"
  proof (intro impI, elim conjE)
    assume ns: "case cache self (''project_'' @ name) of None \<Rightarrow> True
           | Some (d, t) \<Rightarrow> \<not> now_readings clk (now_reads clk) - t < timedelta_seconds (cache_ttl self)"
      and nd: "case db self of None \<Rightarrow> True
              | Some fs \<Rightarrow> faults fs (accesses fs) \<noteq> None \<or> projects fs (document_id name) = None"
    from get_not_served [OF ns] obtain clk1 where
      g: "get_project_context self clk name = fetch_project_context self clk1 name"
      and c1: "now_readings clk1 = now_readings clk" by blast
    from fetch_fallback [OF nd, of clk1] g assms
    have r: "r = get_default_project_context name"
      and s: "self' = self\<lparr>db := map_option (\<lambda>fs. fs\<lparr>accesses := Suc (accesses fs)\<rparr>) (db self)\<rparr>"
      and k: "clk' = clk1"
      by simp_all
    have c: "cache self' = cache self" by (simp add: s)
    have t: "cache_ttl self' = cache_ttl self" by (simp add: s)
    have n: "\<forall>fs' r2 self2 clk2.
                    db self' = Some fs'
                    \<and> now_readings clk (now_reads clk) \<le> now_readings clk' (now_reads clk')
                    \<and> get_project_context self' clk' name = (r2, self2, clk2)
                    \<longrightarrow> (\<exists>fs2. db self2 = Some fs2 \<and> accesses fs2 = Suc (accesses fs'))"
    proof (intro allI impI, elim conjE)
      fix fs' r2 self2 clk2
      assume d: "db self' = Some fs'"
        and m: "now_readings clk (now_reads clk) \<le> now_readings clk' (now_reads clk')"
        and g2: "get_project_context self' clk' name = (r2, self2, clk2)"
      have "case cache self' (''project_'' @ name) of None \<Rightarrow> True
           | Some (d, t) \<Rightarrow> \<not> now_readings clk' (now_reads clk') - t < timedelta_seconds (cache_ttl self')"
        using ns m by (auto simp: c t split: option.splits)
      from get_not_served [OF this] g2 obtain clk3 where
        "fetch_project_context self' clk3 name = (r2, self2, clk2)" by auto
      from fetch_accesses [OF d this]
      show "\<exists>fs2. db self2 = Some fs2 \<and> accesses fs2 = Suc (accesses fs')" .
    qed
    from r c n show "r = get_default_project_context name \<and> cache self' = cache self
              \<and> (\<forall>fs' r2 self2 clk2.
                    db self' = Some fs'
                    \<and> now_readings clk (now_reads clk) \<le> now_readings clk' (now_reads clk')
                    \<and> get_project_context self' clk' name = (r2, self2, clk2)
                    \<longrightarrow> (\<exists>fs2. db self2 = Some fs2 \<and> accesses fs2 = Suc (accesses fs')))"
      by blast
  qed
  have C: "cache (clear_cache self) = Map.empty" by (simp add: clear_cache_def)
  have D: "cache (snd (update_project_status self project status updates)) \<subseteq>\<^sub>m cache self"
    by (auto simp: update_project_status_def Let_def map_le_def split: option.splits prod.splits sum.splits)
  from A B C D show ?thesis by blast
qed

theorem cache_holds_store_hits_only_witness:
  "fst (get_project_context example_manager example_clock ''Ghost'') = get_default_project_context ''Ghost''
   \<and> cache (fst (snd (get_project_context example_manager example_clock ''Ghost''))) = Map.empty"
proof -
  let ?g = "get_project_context example_manager example_clock ''Ghost''"
  have c: "?g = (fst ?g, fst (snd ?g), snd (snd ?g))" by simp
  have 1: "case cache example_manager (''project_'' @ ''Ghost'') of None \<Rightarrow> True
           | Some (d, t) \<Rightarrow> \<not> now_readings example_clock (now_reads example_clock) - t
                                < timedelta_seconds (cache_ttl example_manager)"
    by (simp add: example_manager_def)
  have 2: "case db example_manager of None \<Rightarrow> True
           | Some fs \<Rightarrow> faults fs (accesses fs) \<noteq> None \<or> projects fs (document_id ''Ghost'') = None"
    by (simp add: example_manager_def example_store_def document_id_ghost)
  from cache_holds_store_hits_only [OF c] 1 2
  have "fst ?g = get_default_project_context ''Ghost''
        \<and> cache (fst (snd ?g)) = cache example_manager"
    by blast
  then show ?thesis by (simp add: example_manager_def)
qed

subsection \<open>Saving a conversation\<close>

lemma save_conversation_ok:
  assumes "db self = Some fs" "faults fs (accesses fs) = None"
  shows "save_conversation self project msgs =
     (True,
      self\<lparr>db := Some (save_conversation_history
          (fs\<lparr>accesses := Suc (accesses fs),
              conversations := (conversations fs)(document_id project \<mapsto>
                 \<lparr>conv_project = project, conv_messages = msgs,
                  message_count = int (length msgs),
                  last_updated = PTimestamp (server_time fs (accesses fs)), version = 2\<rparr>)\<rparr>)
          project msgs)\<rparr>)"
  using assms
  by (simp add: save_conversation_def conversations_set_def resolve_timestamp_def Let_def)

lemma save_conversation_history_frame:
  "conversations (save_conversation_history fs project msgs) = conversations fs
   \<and> projects (save_conversation_history fs project msgs) = projects fs
   \<and> faults (save_conversation_history fs project msgs) = faults fs
   \<and> server_time (save_conversation_history fs project msgs) = server_time fs
   \<and> accesses (save_conversation_history fs project msgs) = Suc (accesses fs)
   \<and> (faults fs (accesses fs) \<noteq> None \<longrightarrow>
        conversation_history (save_conversation_history fs project msgs) = conversation_history fs)"
  by (auto simp add: save_conversation_history_def conversation_history_add_def Let_def
      split: option.splits)

text \<open>
  C4. \<open>save_conversation\<close> returns \<open>True\<close> exactly when there is a store and the write of
  the conversation document succeeds: without a store it returns \<open>False\<close>, and an exception
  of the write is caught and turned into \<open>False\<close>. When the write succeeds the result is
  \<open>True\<close> and the document is stored whether or not the backup append to the history
  collection raises; if it raises, the history is left as it was. The function is total and
  its result is a boolean: both handlers end the exception.
\<close>

theorem save_conversation_result:
  "fst (save_conversation self project msgs) =
     (case db self of None \<Rightarrow> False | Some fs \<Rightarrow> faults fs (accesses fs) = None)
   \<and> (\<forall>fs. db self = Some fs \<and> faults fs (accesses fs) = None \<longrightarrow>
         fst (save_conversation self project msgs)
         \<and> (\<exists>fs'. db (snd (save_conversation self project msgs)) = Some fs'
               \<and> conversations fs' (document_id project) =
                   Some \<lparr>conv_project = project, conv_messages = msgs,
                         message_count = int (length msgs),
                         last_updated = PTimestamp (server_time fs (accesses fs)), version = 2\<rparr>
               \<and> (faults fs (Suc (accesses fs)) \<noteq> None \<longrightarrow>
                    conversation_history fs' = conversation_history fs)))"
proof -
  have A: "fst (save_conversation self project msgs) =
     (case db self of None \<Rightarrow> False | Some fs \<Rightarrow> faults fs (accesses fs) = None)"
    by (auto simp add: save_conversation_def conversations_set_def Let_def split: option.splits)
  have B: "\<forall>fs. db self = Some fs \<and> faults fs (accesses fs) = None \<longrightarrow>
         fst (save_conversation self project msgs)
         \<and> (\<exists>fs'. db (snd (save_conversation self project msgs)) = Some fs'
               \<and> conversations fs' (document_id project) =
                   Some \<lparr>conv_project = project, conv_messages = msgs,
                         message_count = int (length msgs),
                         last_updated = PTimestamp (server_time fs (accesses fs)), version = 2\<rparr>
               \<and> (faults fs (Suc (accesses fs)) \<noteq> None \<longrightarrow>
                    conversation_history fs' = conversation_history fs))"
  proof (intro allI impI, elim conjE)
    fix fs
    assume d: "db self = Some fs" and f: "faults fs (accesses fs) = None"
    show "fst (save_conversation self project msgs)
         \<and> (\<exists>fs'. db (snd (save_conversation self project msgs)) = Some fs'
               \<and> conversations fs' (document_id project) =
                   Some \<lparr>conv_project = project, conv_messages = msgs,
                         message_count = int (length msgs),
                         last_updated = PTimestamp (server_time fs (accesses fs)), version = 2\<rparr>
               \<and> (faults fs (Suc (accesses fs)) \<noteq> None \<longrightarrow>
                    conversation_history fs' = conversation_history fs))"
      unfolding save_conversation_ok [OF d f]
      using save_conversation_history_frame
      by simp
  qed
  from A B show ?thesis by blast
qed

theorem save_conversation_result_witness:
  "fst (save_conversation manager_backup_failing ''HAVEN Platform'' five_messages)
   \<and> \<not> fst (save_conversation manager_store_down ''HAVEN Platform'' five_messages)"
proof -
  have 1: "db manager_backup_failing = Some store_backup_failing
           \<and> faults store_backup_failing (accesses store_backup_failing) = None"
    by (simp add: manager_backup_failing_def store_backup_failing_def example_store_def)
  from save_conversation_result [of manager_backup_failing "''HAVEN Platform''" five_messages] 1
  have a: "fst (save_conversation manager_backup_failing ''HAVEN Platform'' five_messages)"
    by blast
  from save_conversation_result [of manager_store_down "''HAVEN Platform''" five_messages]
  have b: "\<not> fst (save_conversation manager_store_down ''HAVEN Platform'' five_messages)"
    by (simp add: manager_store_down_def failing_store_def example_store_def)
  from a b show ?thesis by simp
qed

text \<open>
  C8. Two successive saves for the same project, both of whose conversation writes succeed:
  afterwards the project's conversation document is exactly the second message list, its
  length as \<open>message_count\<close>, the store's timestamp and version 2. Nothing of the first save
  remains in it. The witness saves five messages and then two.
\<close>

theorem save_conversation_overwrites:
  assumes "db self = Some fs"
    and "faults fs (accesses fs) = None"
    and "faults fs (accesses fs + 2) = None"
    and "save_conversation self project msgs1 = (ok1, self1)"
    and "save_conversation self1 project msgs2 = (ok2, self2)"
  shows "ok1 \<and> ok2
    \<and> (\<exists>fs2. db self2 = Some fs2
          \<and> conversations fs2 (document_id project) =
               Some \<lparr>conv_project = project, conv_messages = msgs2,
                     message_count = int (length msgs2),
                     last_updated = PTimestamp (server_time fs (accesses fs + 2)), version = 2\<rparr>)"
proof -
  let ?fs1 = "save_conversation_history
          (fs\<lparr>accesses := Suc (accesses fs),
              conversations := (conversations fs)(document_id project \<mapsto>
                 \<lparr>conv_project = project, conv_messages = msgs1,
                  message_count = int (length msgs1),
                  last_updated = PTimestamp (server_time fs (accesses fs)), version = 2\<rparr>)\<rparr>)
          project msgs1"
  from save_conversation_ok [OF assms(1,2), of project msgs1] assms(4)
  have ok1: "ok1" and s1: "self1 = self\<lparr>db := Some ?fs1\<rparr>" by simp_all
  have d1: "db self1 = Some ?fs1" by (simp add: s1)
  have a1: "accesses ?fs1 = accesses fs + 2" "faults ?fs1 = faults fs" "server_time ?fs1 = server_time fs"
    using save_conversation_history_frame by simp_all
  have f1: "faults ?fs1 (accesses ?fs1) = None" using assms(3) a1 by simp
  from save_conversation_ok [OF d1 f1, of project msgs2] assms(5)
  have ok2: "ok2" and s2: "self2 = self1\<lparr>db := Some (save_conversation_history
          (?fs1\<lparr>accesses := Suc (accesses ?fs1),
              conversations := (conversations ?fs1)(document_id project \<mapsto>
                 \<lparr>conv_project = project, conv_messages = msgs2,
                  message_count = int (length msgs2),
                  last_updated = PTimestamp (server_time ?fs1 (accesses ?fs1)), version = 2\<rparr>)\<rparr>)
          project msgs2)\<rparr>" by simp_all
  have "\<exists>fs2. db self2 = Some fs2
          \<and> conversations fs2 (document_id project) =
               Some \<lparr>conv_project = project, conv_messages = msgs2,
                     message_count = int (length msgs2),
                     last_updated = PTimestamp (server_time fs (accesses fs + 2)), version = 2\<rparr>"
    unfolding s2 using save_conversation_history_frame a1 by simp
  with ok1 ok2 show ?thesis by blast
qed

theorem save_conversation_overwrites_witness:
  "map_option (\<lambda>fs. map_option conv_messages (conversations fs ''haven_platform''))
     (db (snd (save_conversation (snd (save_conversation example_manager ''HAVEN Platform'' five_messages))
                 ''HAVEN Platform'' two_messages)))
     = Some (Some two_messages)
   \<and> map_option (\<lambda>fs. map_option message_count (conversations fs ''haven_platform''))
     (db (snd (save_conversation (snd (save_conversation example_manager ''HAVEN Platform'' five_messages))
                 ''HAVEN Platform'' two_messages)))
     = Some (Some 2)
   \<and> length five_messages = 5 \<and> length two_messages = 2"
proof -
  let ?s1 = "save_conversation example_manager ''HAVEN Platform'' five_messages"
  let ?s2 = "save_conversation (snd ?s1) ''HAVEN Platform'' two_messages"
  have 1: "db example_manager = Some example_store" by (simp add: example_manager_def)
  have 2: "faults example_store (accesses example_store) = None" by (simp add: example_store_def)
  have 3: "faults example_store (accesses example_store + 2) = None" by (simp add: example_store_def)
  have 4: "?s1 = (fst ?s1, snd ?s1)" by simp
  have 5: "?s2 = (fst ?s2, snd ?s2)" by simp
  from save_conversation_overwrites [OF 1 2 3 4 5] show ?thesis
    by (auto simp add: document_id_haven five_messages_def two_messages_def)
qed

section \<open>Properties of the Session Controller\<close>

lemma chat_unconfigured:
  "model self = None \<Longrightarrow>
   chat py_str self env user_message context history max_tokens temperature retry_count =
     (format_error self ''Vertex AI not configured''
        ''Set GCP_PROJECT_ID environment variable and ensure Vertex AI is enabled'' None, self, env)"
  by (simp add: chat_def)

text \<open>
  C2, as stated, fails. On a session whose gateway has no endpoint (\<open>model\<close> is \<open>None\<close>) the
  turn makes no remote call, and \<open>request_count\<close> is incremented all the same.
\<close>

theorem handle_user_input_unconfigured_counterexample:
  "model (vertex_claude unconfigured_session) = None
   \<and> request_count (fst (handle_user_input (\<lambda>v. []) unconfigured_session example_clock
         env_always_failing ''hello'')) \<noteq> request_count unconfigured_session
   \<and> remote_calls (snd (snd (handle_user_input (\<lambda>v. []) unconfigured_session example_clock
         env_always_failing ''hello''))) = 0"
  by (simp add: handle_user_input_def Let_def chat_unconfigured unconfigured_session_def
      unconfigured_gateway_def env_always_failing_def split: prod.splits)

text \<open>
  C2, amended. On every user turn \<open>request_count\<close> grows by one and the gateway's
  \<open>last_request_cost\<close>, as it is after the call of \<open>chat\<close>, is added to the session's total
  cost, whether or not the endpoint was contacted. When \<open>model\<close> is \<open>None\<close>, \<open>chat\<close>
  returns the not-configured message, which becomes the assistant message; the gateway,
  and with it the \<open>last_request_cost\<close> that is added, is unchanged and no remote call is
  made.
\<close>

theorem handle_user_input_counters:
  assumes "handle_user_input py_str st clk env user_input = (st', clk', env')"
  shows "request_count st' = request_count st + 1
    \<and> session_total_cost st' = fl_add (session_total_cost st) (last_request_cost (vertex_claude st'))
    \<and> (model (vertex_claude st) = None \<longrightarrow>
         vertex_claude st' = vertex_claude st \<and> env' = env
         \<and> last (messages st') =
             [(''role'', ''assistant''),
              (''content'', format_error (vertex_claude st) ''Vertex AI not configured''
                 ''Set GCP_PROJECT_ID environment variable and ensure Vertex AI is enabled'' None)])"
  using assms
  by (auto simp add: handle_user_input_def Let_def chat_unconfigured split: prod.splits)

theorem handle_user_input_counters_witness:
  "request_count (fst (handle_user_input (\<lambda>v. []) unconfigured_session example_clock
         env_always_failing ''hello'')) = 1"
proof -
  let ?h = "handle_user_input (\<lambda>v. []) unconfigured_session example_clock env_always_failing ''hello''"
  have "?h = (fst ?h, fst (snd ?h), snd (snd ?h))" by simp
  from handle_user_input_counters [OF this] show ?thesis
    by (simp add: unconfigured_session_def)
qed

end
